theory Spec2Isabelle
  imports Main "HOL-Library.AList"
begin

section \<open>Data model of a simulated charging station\<close>

text \<open>
  The OCPP 1.6 enumerations the incoming request service and the automatic transaction
  generator compare against.  The constructors carry the names of the TypeScript enum
  members the source refers to.
\<close>

datatype OCPP16ChargePointStatus =
  AVAILABLE | PREPARING | CHARGING | SUSPENDED_EVSE | SUSPENDED_EV | FINISHING
  | RESERVED | UNAVAILABLE | FAULTED

datatype OCPP16ChargePointErrorCode = NO_ERROR | OTHER_ERROR

datatype OCPP16AvailabilityType = OPERATIVE | INOPERATIVE

datatype ChargingProfilePurposeType = CHARGE_POINT_MAX_PROFILE | TX_DEFAULT_PROFILE | TX_PROFILE

datatype OCPP16AuthorizationStatus = ACCEPTED | BLOCKED | EXPIRED | INVALID | CONCURRENT_TX

datatype OCPP16StopTransactionReason =
  NONE | EMERGENCY_STOP | EV_DISCONNECTED | HARD_RESET | LOCAL | OTHER | POWER_LOSS
  | REBOOT | REMOTE | SOFT_RESET | UNLOCK_COMMAND | DE_AUTHORIZED

datatype OCPP16SupportedFeatureProfiles =
  Core | FirmwareManagement | LocalAuthListManagement | Reservation | SmartCharging
  | RemoteTrigger

datatype MessageTrigger =
  BootNotification | DiagnosticsStatusNotification | FirmwareStatusNotification
  | Heartbeat | MeterValues | StatusNotification

text \<open>
  Registration of the station on the central server, as \<open>isRegistered()\<close>,
  \<open>isInPendingState()\<close> and \<open>isInUnknownState()\<close> read it.
\<close>

datatype RegistrationState = Unregistered | Pending | Registered | Unknown

text \<open>
  A charging profile as the handlers read it.  Every field is optional in the model:
  clearing a profile overwrites the array slot with the empty object \<open>{}\<close>, whose
  fields all read \<open>undefined\<close> (\<open>None\<close>), and \<open>===\<close> between two optional
  numbers is equality of the options.
\<close>

record OCPP16ChargingProfile =
  chargingProfileId :: "int option"
  stackLevel :: "int option"
  chargingProfilePurpose :: "ChargingProfilePurposeType option"

definition emptyProfile :: OCPP16ChargingProfile where
  "emptyProfile = \<lparr>chargingProfileId = None, stackLevel = None, chargingProfilePurpose = None\<rparr>"

text \<open>
  The status object of one connector.  \<open>chargingProfiles\<close> is an optional JavaScript
  array: \<open>None\<close> is \<open>undefined\<close>, and a slot of the array is \<open>None\<close> when it is a
  hole left by a write past the end.
\<close>

record ConnectorStatus =
  status :: OCPP16ChargePointStatus
  availability :: OCPP16AvailabilityType
  transactionStarted :: bool
  transactionId :: "int option"
  transactionIdTag :: "string option"
  transactionEnergyActiveImportRegister :: int
  transactionRemoteStarted :: bool
  authorizeIdTag :: "string option"
  localAuthorizeIdTag :: "string option"
  idTagLocalAuthorized :: bool
  chargingProfiles :: "OCPP16ChargingProfile option list option"

text \<open>
  A configuration entry.  \<open>visible\<close> and \<open>reboot\<close> are optional in the source
  (\<open>Utils.isUndefined(configuration.visible)\<close>, \<open>if (keyToChange.reboot)\<close>).
\<close>

record OCPPConfigurationKey =
  key :: string
  value_k :: string
  readonly :: bool
  visible :: "bool option"
  reboot :: "bool option"

text \<open>
  Requests the station sends to the central system through
  \<open>ocppRequestService\<close>, with the payload fields the source fills in.
\<close>

datatype OutboundRequest =
  STATUS_NOTIFICATION int OCPP16ChargePointStatus OCPP16ChargePointErrorCode
    \<comment> \<open>connectorId, status, errorCode\<close>
  | METER_VALUES int "int option" "int option"
    \<comment> \<open>connectorId, transactionId, the energy register the transaction-end meter
        value is built from\<close>
  | STOP_TRANSACTION "int option" "int option" "string option" "OCPP16StopTransactionReason option"
    \<comment> \<open>transactionId, meterStop, idTag, reason; a field is \<open>None\<close> when the
        source passes \<open>undefined\<close> or leaves it out\<close>
  | AUTHORIZE string
    \<comment> \<open>idTag\<close>
  | START_TRANSACTION int string
    \<comment> \<open>connectorId, idTag\<close>
  | BOOT_NOTIFICATION
  | HEARTBEAT

text \<open>
  What the central system answers.  Only \<open>idTagInfo?.status\<close> is read by the code
  modelled here; \<open>None\<close> stands for a response without \<open>idTagInfo\<close>.
\<close>

record OutboundResponse =
  idTagInfo :: "OCPP16AuthorizationStatus option"

text \<open>
  The callbacks \<open>handleRequestTriggerMessage\<close> hands to \<open>setTimeout\<close>.  The
  StatusNotification callback closes over the request's \<open>connectorId\<close>.
\<close>

datatype TriggerCallback =
  TriggerBootNotification
  | TriggerHeartbeat
  | TriggerStatusNotification "int option"

text \<open>
  The station.  \<open>connectors\<close> is the \<open>Map<number, ConnectorStatus>\<close> in iteration
  order of its keys, and \<open>configurationKey\<close> the array
  \<open>ocppConfiguration.configurationKey\<close>.  The flags are what the getters of the
  station return (\<open>getOcppStrictCompliance()\<close>, \<open>getBeginEndMeterValues()\<close>,
  \<open>getOutOfOrderEndMeterValues()\<close>, \<open>getAuthorizeRemoteTxRequests()\<close>,
  \<open>getLocalAuthListEnabled()\<close>, \<open>getMayAuthorizeAtRemoteStart()\<close>); the station
  descriptor supplies them.  \<open>requests\<close> is the log of everything sent through
  \<open>ocppRequestService\<close>, oldest first; \<open>heartbeatRestarts\<close> and
  \<open>webSocketPingRestarts\<close> count the calls of \<open>restartHeartbeat()\<close> and
  \<open>restartWebSocketPing()\<close>; \<open>timeouts\<close> holds the callbacks registered with
  \<open>setTimeout\<close> that have not run yet.
\<close>

record ChargingStation =
  connectors :: "(int \<times> ConnectorStatus) list"
  configurationKey :: "OCPPConfigurationKey list"
  registration :: RegistrationState
  ocppStrictCompliance :: bool
  beginEndMeterValues :: bool
  outOfOrderEndMeterValues :: bool
  authorizeRemoteTxRequests :: bool
  localAuthListEnabled :: bool
  mayAuthorizeAtRemoteStart :: bool
  authorizedTags :: "string list"
  supportedFeatureProfiles :: "OCPP16SupportedFeatureProfiles list"
  requests :: "OutboundRequest list"
  heartbeatRestarts :: nat
  webSocketPingRestarts :: nat
  timeouts :: "TriggerCallback list"

text \<open>Errors the modelled code raises.\<close>

datatype ErrorType = SECURITY_ERROR | NOT_IMPLEMENTED | GENERIC_ERROR

datatype error =
  OCPPError ErrorType string
    \<comment> \<open>\<open>new OCPPError(errorType, message, commandName)\<close>; the message text is left out\<close>
  | TypeError
    \<comment> \<open>reading or writing a property of \<open>undefined\<close>\<close>

section \<open>Collaborators of the handlers\<close>

text \<open>
  The class \<open>ChargingStation\<close>, \<open>Utils\<close>, \<open>OCPP16ServiceUtils\<close> and the request
  service are used by the handlers but are not among the source files.  Their
  operations are modelled here, each from what the specification says about it.
\<close>

text \<open>
  JavaScript truthiness of an optional number (\<open>if (connectorId)\<close>): \<open>undefined\<close>
  and \<open>0\<close> are falsy.
\<close>

definition truthy :: "int option \<Rightarrow> bool" where
  "truthy n = (case n of None \<Rightarrow> False | Some k \<Rightarrow> k \<noteq> 0)"

text \<open>
  Modelled from the spec: \<open>Utils.isEmptyArray\<close> is not among the source files.
  Section 4.2 treats an absent and an empty array alike ("empty/absent keys").
\<close>

definition isEmptyArray :: "'a list option \<Rightarrow> bool" where
  "isEmptyArray a = (case a of None \<Rightarrow> True | Some xs \<Rightarrow> xs = [])"

text \<open>
  Modelled from the spec: \<open>ChargingStation.getConnectorStatus\<close> is not among the
  source files.  Section 4.1 names it \<open>lookup(id)\<close> on the connector map; the
  handlers test its result for \<open>undefined\<close>.  Where the connector id of a request is
  optional, the handlers below split on it first: the keys of the map are numbers, so
  the lookup of \<open>undefined\<close> finds nothing.
\<close>

definition getConnectorStatus :: "ChargingStation \<Rightarrow> int \<Rightarrow> ConnectorStatus option" where
  "getConnectorStatus cs connectorId = map_of (connectors cs) connectorId"

text \<open>
  An assignment to a field of the status object of connector \<open>connectorId\<close>
  (\<open>getConnectorStatus(connectorId).status = ...\<close>): the object stored in the map
  changes in place.  Every key of the map holds an object of its own.
\<close>

definition updateConnector ::
  "int \<Rightarrow> (ConnectorStatus \<Rightarrow> ConnectorStatus) \<Rightarrow> ChargingStation \<Rightarrow> ChargingStation" where
  "updateConnector connectorId f cs =
     cs\<lparr>connectors := AList.map_entry connectorId f (connectors cs)\<rparr>"

text \<open>
  Modelled from the spec: \<open>ChargingStation.isRegistered\<close> is not among the source
  files.  Section 3 gives the registration state as one of Unregistered, Pending,
  Registered, Unknown.
\<close>

definition isRegistered :: "ChargingStation \<Rightarrow> bool" where
  "isRegistered cs = (registration cs = Registered)"

text \<open>
  Modelled from the spec: \<open>ChargingStation.isInPendingState\<close> is not among the
  source files; section 3, as above.
\<close>

definition isInPendingState :: "ChargingStation \<Rightarrow> bool" where
  "isInPendingState cs = (registration cs = Pending)"

text \<open>
  Modelled from the spec: \<open>ChargingStation.isInUnknownState\<close> is not among the
  source files; section 3, as above.
\<close>

definition isInUnknownState :: "ChargingStation \<Rightarrow> bool" where
  "isInUnknownState cs = (registration cs = Unknown)"

text \<open>
  Modelled from the spec: \<open>ChargingStation.isChargingStationAvailable\<close> is not among
  the source files.  Section 3 (invariant 3) places the station-level availability on
  connector 0; a station without connector 0 counts as not available.
\<close>

definition isChargingStationAvailable :: "ChargingStation \<Rightarrow> bool" where
  "isChargingStationAvailable cs =
     (case getConnectorStatus cs 0 of None \<Rightarrow> False | Some c \<Rightarrow> availability c = OPERATIVE)"

text \<open>
  Modelled from the spec: \<open>ChargingStation.hasAuthorizedTags\<close> is not among the
  source files.  Section 4.4 (RemoteStartTransaction): the "station has authorized
  tags".
\<close>

definition hasAuthorizedTags :: "ChargingStation \<Rightarrow> bool" where
  "hasAuthorizedTags cs = (authorizedTags cs \<noteq> [])"

text \<open>
  Modelled from the spec: \<open>OCPP16ServiceUtils.checkFeatureProfile\<close> is not among the
  source files.  Section 6 has the station descriptor supply the feature-profile
  enablement; the third argument of the source only names the command in a log line.
\<close>

definition checkFeatureProfile ::
  "ChargingStation \<Rightarrow> OCPP16SupportedFeatureProfiles \<Rightarrow> bool" where
  "checkFeatureProfile cs featureProfile = (featureProfile \<in> set (supportedFeatureProfiles cs))"

text \<open>
  Modelled from the spec: the lookups by transaction id of \<open>ChargingStation\<close> are not
  among the source files.  Section 4.1 names them \<open>transactionConnectorId\<close>,
  \<open>energyRegisterFor\<close> and \<open>idTagFor\<close>; section 4.4 finds "the connector (id > 0)
  whose transactionId matches".  The first such connector in the order of the map
  answers; without one the result is \<open>undefined\<close>.  The transaction id looked up is
  optional, since the callers pass on a connector's \<open>transactionId\<close> as they read it.
\<close>

definition transactionConnector ::
  "ChargingStation \<Rightarrow> int option \<Rightarrow> (int \<times> ConnectorStatus) option" where
  "transactionConnector cs tid =
     find (\<lambda>(k, c). k > 0 \<and> transactionId c = tid) (connectors cs)"

text \<open>
  Modelled from the spec: \<open>ChargingStation.getEnergyActiveImportRegisterByTransactionId\<close>
  is not among the source files.  It is \<open>energyRegisterFor(transactionId)\<close> of
  section 4.1: the energy register of the connector found above.
\<close>

definition getEnergyActiveImportRegisterByTransactionId ::
  "ChargingStation \<Rightarrow> int option \<Rightarrow> int option" where
  "getEnergyActiveImportRegisterByTransactionId cs tid =
     map_option (\<lambda>(k, c). transactionEnergyActiveImportRegister c) (transactionConnector cs tid)"

text \<open>
  Modelled from the spec: \<open>ChargingStation.getTransactionIdTag\<close> is not among the
  source files.  It is \<open>idTagFor(transactionId)\<close> of section 4.1: the transaction
  idTag of the connector found above.
\<close>

definition getTransactionIdTag :: "ChargingStation \<Rightarrow> int option \<Rightarrow> string option" where
  "getTransactionIdTag cs tid =
     (case transactionConnector cs tid of None \<Rightarrow> None | Some (k, c) \<Rightarrow> transactionIdTag c)"

text \<open>
  Modelled from the spec: the request service is not among the source files.
  Section 4.6 describes \<open>sendRequest(command, payload)\<close> as sending the request and
  returning the paired response.  The central system is the function
  \<open>centralSystem\<close> from a request to its response; the request is appended to the
  station's log.  Failures of the transport and the options argument
  (\<open>triggerMessage\<close>, \<open>skipBufferingOnError\<close>) are outside the model.
\<close>

type_synonym CentralSystem = "OutboundRequest \<Rightarrow> OutboundResponse"

definition requestHandler ::
  "CentralSystem \<Rightarrow> OutboundRequest \<Rightarrow> ChargingStation \<Rightarrow> OutboundResponse \<times> ChargingStation" where
  "requestHandler centralSystem request cs =
     (centralSystem request, cs\<lparr>requests := requests cs @ [request]\<rparr>)"

text \<open>
  Modelled from the spec: \<open>ChargingStation.restartHeartbeat\<close> is not among the source
  files.  Section 4.2: a change of a heartbeat alias restarts the heartbeat timer.  The
  restarts are counted.
\<close>

definition restartHeartbeat :: "ChargingStation \<Rightarrow> ChargingStation" where
  "restartHeartbeat cs = cs\<lparr>heartbeatRestarts := Suc (heartbeatRestarts cs)\<rparr>"

text \<open>
  Modelled from the spec: \<open>ChargingStation.restartWebSocketPing\<close> is not among the
  source files.  Section 4.2: a change of \<open>WebSocketPingInterval\<close> restarts the
  WebSocket ping timer.  The restarts are counted.
\<close>

definition restartWebSocketPing :: "ChargingStation \<Rightarrow> ChargingStation" where
  "restartWebSocketPing cs = cs\<lparr>webSocketPingRestarts := Suc (webSocketPingRestarts cs)\<rparr>"

subsection \<open>Configuration store\<close>

text \<open>
  \<open>String.prototype.toLowerCase\<close> on the ASCII letters; a \<open>char\<close> is a byte, and
  bytes outside \<open>A\<close>..\<open>Z\<close> are kept.
\<close>

definition toLowerCase_char :: "char \<Rightarrow> char" where
  "toLowerCase_char c =
     (let n = (of_char c :: nat) in if 65 \<le> n \<and> n \<le> 90 then char_of (n + 32) else c)"

definition toLowerCase :: "string \<Rightarrow> string" where
  "toLowerCase s = map toLowerCase_char s"

definition HeartBeatInterval :: string where
  "HeartBeatInterval = ''HeartBeatInterval''"

definition HeartbeatInterval :: string where
  "HeartbeatInterval = ''HeartbeatInterval''"

definition WebSocketPingInterval :: string where
  "WebSocketPingInterval = ''WebSocketPingInterval''"

text \<open>The first element that satisfies \<open>P\<close> is replaced by its image under \<open>f\<close>.\<close>

fun updateFirst :: "('a \<Rightarrow> bool) \<Rightarrow> ('a \<Rightarrow> 'a) \<Rightarrow> 'a list \<Rightarrow> 'a list" where
  "updateFirst P f [] = []"
| "updateFirst P f (x # xs) = (if P x then f x # xs else x # updateFirst P f xs)"

text \<open>
  Modelled from the spec: how the two configuration operations below compare a key with
  an entry.  Section 4.2 gives \<open>set\<close> the flag \<open>caseInsensitive\<close>; with the flag
  both keys are lower-cased first, without it they are compared as they are.
\<close>

definition keyMatches :: "string \<Rightarrow> bool \<Rightarrow> OCPPConfigurationKey \<Rightarrow> bool" where
  "keyMatches k caseInsensitive configElement =
     (if caseInsensitive then toLowerCase (key configElement) = toLowerCase k
      else key configElement = k)"

text \<open>
  Modelled from the spec: \<open>ChargingStation.getConfigurationKey\<close> is not among the
  source files.  Section 4.2 gives \<open>get(key)\<close> returning the entry or nothing; the
  handler passes a second argument \<open>true\<close>, which is read as the \<open>caseInsensitive\<close>
  flag that section 4.2 gives \<open>set(key, value, caseInsensitive = false)\<close>.
\<close>

definition getConfigurationKey ::
  "ChargingStation \<Rightarrow> string \<Rightarrow> bool \<Rightarrow> OCPPConfigurationKey option" where
  "getConfigurationKey cs k caseInsensitive =
     find (keyMatches k caseInsensitive) (configurationKey cs)"

text \<open>
  Modelled from the spec: the write of \<open>set\<close> to the entry it found.  Section 4.2:
  \<open>set\<close> "rejects if entry is read-only; on accept updates value".
\<close>

definition writeValue :: "string \<Rightarrow> OCPPConfigurationKey \<Rightarrow> OCPPConfigurationKey" where
  "writeValue v e = (if readonly e then e else e\<lparr>value_k := v\<rparr>)"

text \<open>
  Modelled from the spec: \<open>ChargingStation.setConfigurationKeyValue\<close> is not among
  the source files.  Section 4.2: \<open>set(key, value, caseInsensitive = false)\<close>
  "rejects if entry is read-only; on accept updates value".  The first entry that
  matches the key is the one written; a key without an entry changes nothing.
\<close>

definition setConfigurationKeyValue ::
  "string \<Rightarrow> string \<Rightarrow> bool \<Rightarrow> ChargingStation \<Rightarrow> ChargingStation" where
  "setConfigurationKeyValue k v caseInsensitive cs =
     cs\<lparr>configurationKey :=
          updateFirst (keyMatches k caseInsensitive) (writeValue v) (configurationKey cs)\<rparr>"

section \<open>The incoming request service\<close>

text \<open>
  The handlers of \<open>OCPP16IncomingRequestService\<close>.  A response type has one
  constructor per response object of \<open>Constants\<close> that the handler returns, under
  the constant's name.  A handler that awaits the request service takes the central
  system as its first argument.
\<close>

subsection \<open>Request router\<close>

definition REMOTE_START_TRANSACTION :: string where
  "REMOTE_START_TRANSACTION = ''RemoteStartTransaction''"

definition REMOTE_STOP_TRANSACTION :: string where
  "REMOTE_STOP_TRANSACTION = ''RemoteStopTransaction''"

text \<open>
  A handler takes the payload and the station and returns its response or the error it
  raised, with the station as it left it.  \<open>incomingRequestHandlers\<close> is the map from
  command name to handler that the constructor fills; a command name arrives as the
  string of the frame.
\<close>

type_synonym ('p, 'r) IncomingRequestHandler =
  "'p \<Rightarrow> ChargingStation \<Rightarrow> (error + 'r) \<times> ChargingStation"

text \<open>
  \<open>sendResponse(messageId, response, commandName)\<close> of the request service: the
  response sent is the result of the router.
\<close>

datatype 'r SentResponse = SentResponse string 'r string

definition incomingRequestHandler ::
  "(string \<rightharpoonup> ('p, 'r) IncomingRequestHandler) \<Rightarrow> string \<Rightarrow> string \<Rightarrow> 'p \<Rightarrow> ChargingStation
     \<Rightarrow> (error + 'r SentResponse) \<times> ChargingStation" where
  "incomingRequestHandler incomingRequestHandlers messageId commandName commandPayload cs =
     (if ocppStrictCompliance cs \<and> isInPendingState cs \<and>
         (commandName = REMOTE_START_TRANSACTION \<or> commandName = REMOTE_STOP_TRANSACTION)
      then (Inl (OCPPError SECURITY_ERROR commandName), cs)
      else if isRegistered cs \<or> (\<not> ocppStrictCompliance cs \<and> isInUnknownState cs) then
        (case incomingRequestHandlers commandName of
           Some handler \<Rightarrow>
             (case handler commandPayload cs of
                (Inl e, cs') \<Rightarrow> (Inl e, cs')
              | (Inr response, cs') \<Rightarrow> (Inr (SentResponse messageId response commandName), cs'))
         | None \<Rightarrow> (Inl (OCPPError NOT_IMPLEMENTED commandName), cs))
      else (Inl (OCPPError SECURITY_ERROR commandName), cs))"

subsection \<open>UnlockConnector\<close>

datatype UnlockConnectorResponse =
  OCPP_RESPONSE_UNLOCKED | OCPP_RESPONSE_UNLOCK_FAILED | OCPP_RESPONSE_UNLOCK_NOT_SUPPORTED

definition handleRequestUnlockConnector ::
  "CentralSystem \<Rightarrow> int \<Rightarrow> ChargingStation \<Rightarrow> (error + UnlockConnectorResponse) \<times> ChargingStation" where
  "handleRequestUnlockConnector centralSystem connectorId cs =
     (if connectorId = 0 then (Inr OCPP_RESPONSE_UNLOCK_NOT_SUPPORTED, cs)
      else
        (case getConnectorStatus cs connectorId of
           Some c \<Rightarrow>
             if transactionStarted c then
               let tid = transactionId c;
                   cs1 = (if beginEndMeterValues cs \<and> ocppStrictCompliance cs \<and>
                             \<not> outOfOrderEndMeterValues cs
                          then snd (requestHandler centralSystem
                                 (METER_VALUES connectorId tid
                                    (getEnergyActiveImportRegisterByTransactionId cs tid)) cs)
                          else cs);
                   (stopResponse, cs2) = requestHandler centralSystem
                       (STOP_TRANSACTION tid
                          (getEnergyActiveImportRegisterByTransactionId cs1 tid)
                          (getTransactionIdTag cs1 tid) (Some UNLOCK_COMMAND)) cs1
               in if idTagInfo stopResponse = Some ACCEPTED then (Inr OCPP_RESPONSE_UNLOCKED, cs2)
                  else (Inr OCPP_RESPONSE_UNLOCK_FAILED, cs2)
             else
               let cs1 = snd (requestHandler centralSystem
                                (STATUS_NOTIFICATION connectorId AVAILABLE NO_ERROR) cs)
               in (Inr OCPP_RESPONSE_UNLOCKED,
                   updateConnector connectorId (\<lambda>c. c\<lparr>status := AVAILABLE\<rparr>) cs1)
         | None \<Rightarrow>
             \<comment> \<open>\<open>getConnectorStatus(connectorId)?.transactionStarted\<close> is \<open>undefined\<close>;
                 the notification is sent, then the assignment to \<open>.status\<close> of
                 \<open>undefined\<close> throws\<close>
             (Inl TypeError,
              snd (requestHandler centralSystem
                     (STATUS_NOTIFICATION connectorId AVAILABLE NO_ERROR) cs))))"

subsection \<open>GetConfiguration and ChangeConfiguration\<close>

record GetConfigurationResponse =
  response_configurationKey :: "(string \<times> bool \<times> string) list"
    \<comment> \<open>key, readonly, value\<close>
  response_unknownKey :: "string list"

definition defaultVisible :: "OCPPConfigurationKey \<Rightarrow> OCPPConfigurationKey" where
  "defaultVisible configuration =
     (if visible configuration = None then configuration\<lparr>visible := Some True\<rparr>
      else configuration)"

definition reported :: "OCPPConfigurationKey \<Rightarrow> string \<times> bool \<times> string" where
  "reported configuration = (key configuration, readonly configuration, value_k configuration)"

fun getConfigurationKeys ::
  "string list \<Rightarrow> GetConfigurationResponse \<times> ChargingStation
     \<Rightarrow> GetConfigurationResponse \<times> ChargingStation" where
  "getConfigurationKeys [] (r, cs) = (r, cs)"
| "getConfigurationKeys (k # ks) (r, cs) =
     (case getConfigurationKey cs k False of
        Some keyFound \<Rightarrow>
          let cs' = cs\<lparr>configurationKey :=
                         updateFirst (keyMatches k False) defaultVisible (configurationKey cs)\<rparr>
          in if visible (defaultVisible keyFound) = Some True
             then getConfigurationKeys ks
                    (r\<lparr>response_configurationKey :=
                         response_configurationKey r @ [reported keyFound]\<rparr>, cs')
             else getConfigurationKeys ks (r, cs')
      | None \<Rightarrow>
          getConfigurationKeys ks (r\<lparr>response_unknownKey := response_unknownKey r @ [k]\<rparr>, cs))"

definition handleRequestGetConfiguration ::
  "string list option \<Rightarrow> ChargingStation \<Rightarrow> GetConfigurationResponse \<times> ChargingStation" where
  "handleRequestGetConfiguration commandPayload_key cs =
     (if isEmptyArray commandPayload_key then
        (\<lparr>response_configurationKey =
            map reported
              (filter (\<lambda>configuration. visible (defaultVisible configuration) = Some True)
                 (configurationKey cs)),
          response_unknownKey = []\<rparr>,
         cs\<lparr>configurationKey := map defaultVisible (configurationKey cs)\<rparr>)
      else
        getConfigurationKeys (case commandPayload_key of None \<Rightarrow> [] | Some ks \<Rightarrow> ks)
          (\<lparr>response_configurationKey = [], response_unknownKey = []\<rparr>, cs))"

datatype ChangeConfigurationResponse =
  OCPP_CONFIGURATION_RESPONSE_ACCEPTED | OCPP_CONFIGURATION_RESPONSE_REJECTED
  | OCPP_CONFIGURATION_RESPONSE_REBOOT_REQUIRED | OCPP_CONFIGURATION_RESPONSE_NOT_SUPPORTED

record ChangeConfigurationRequest =
  cc_key :: string
  cc_value :: string

text \<open>
  The two sanity checks on the types of \<open>key\<close> and \<open>value\<close> only log; both fields
  are strings here.  \<open>keyToChange\<close> is the entry as found before any write: its
  \<open>key\<close> and \<open>reboot\<close> are not written, and its \<open>value\<close> is compared before the
  first write.
\<close>

definition handleRequestChangeConfiguration ::
  "ChangeConfigurationRequest \<Rightarrow> ChargingStation \<Rightarrow> ChangeConfigurationResponse \<times> ChargingStation" where
  "handleRequestChangeConfiguration commandPayload cs =
     (case getConfigurationKey cs (cc_key commandPayload) True of
        None \<Rightarrow> (OCPP_CONFIGURATION_RESPONSE_NOT_SUPPORTED, cs)
      | Some keyToChange \<Rightarrow>
          if readonly keyToChange then (OCPP_CONFIGURATION_RESPONSE_REJECTED, cs)
          else
            let valueChanged = (value_k keyToChange \<noteq> cc_value commandPayload);
                cs1 = (if valueChanged
                       then setConfigurationKeyValue (cc_key commandPayload)
                              (cc_value commandPayload) True cs
                       else cs);
                cs2 = (if key keyToChange = HeartBeatInterval \<and> valueChanged
                       then setConfigurationKeyValue HeartbeatInterval
                              (cc_value commandPayload) False cs1
                       else cs1);
                cs3 = (if key keyToChange = HeartbeatInterval \<and> valueChanged
                       then setConfigurationKeyValue HeartBeatInterval
                              (cc_value commandPayload) False cs2
                       else cs2);
                triggerHeartbeatRestart =
                  ((key keyToChange = HeartBeatInterval \<and> valueChanged) \<or>
                   (key keyToChange = HeartbeatInterval \<and> valueChanged));
                cs4 = (if triggerHeartbeatRestart then restartHeartbeat cs3 else cs3);
                cs5 = (if key keyToChange = WebSocketPingInterval \<and> valueChanged
                       then restartWebSocketPing cs4 else cs4)
            in if reboot keyToChange = Some True
               then (OCPP_CONFIGURATION_RESPONSE_REBOOT_REQUIRED, cs5)
               else (OCPP_CONFIGURATION_RESPONSE_ACCEPTED, cs5))"

subsection \<open>ClearChargingProfile\<close>

datatype ClearChargingProfileResponse =
  OCPP_CLEAR_CHARGING_PROFILE_RESPONSE_ACCEPTED | OCPP_CLEAR_CHARGING_PROFILE_RESPONSE_UNKNOWN

record ClearChargingProfileRequest =
  ccp_id :: "int option"
  ccp_connectorId :: "int option"
  ccp_chargingProfilePurpose :: "ChargingProfilePurposeType option"
  ccp_stackLevel :: "int option"

text \<open>
  The four tests of the \<open>forEach\<close> callback.  \<open>!commandPayload.chargingProfilePurpose\<close>
  holds when the request names no purpose; \<open>!chargingProfile.stackLevel\<close> holds when the
  stored profile has no stack level or the stack level 0.
\<close>

definition clearCurrentCP :: "ClearChargingProfileRequest \<Rightarrow> OCPP16ChargingProfile \<Rightarrow> bool" where
  "clearCurrentCP commandPayload chargingProfile =
     (chargingProfileId chargingProfile = ccp_id commandPayload
      \<or> (ccp_chargingProfilePurpose commandPayload = None \<and>
          stackLevel chargingProfile = ccp_stackLevel commandPayload)
      \<or> (\<not> truthy (stackLevel chargingProfile) \<and>
          chargingProfilePurpose chargingProfile = ccp_chargingProfilePurpose commandPayload)
      \<or> (stackLevel chargingProfile = ccp_stackLevel commandPayload \<and>
          chargingProfilePurpose chargingProfile = ccp_chargingProfilePurpose commandPayload))"

text \<open>
  \<open>array[index] = v\<close> on a JavaScript array: a write past the end extends the array
  and leaves holes between the old end and \<open>index\<close>.
\<close>

definition arrayWrite :: "nat \<Rightarrow> 'a \<Rightarrow> 'a option list \<Rightarrow> 'a option list" where
  "arrayWrite index v xs =
     (if index < length xs then xs[index := Some v]
      else xs @ replicate (index - length xs) None @ [Some v])"

text \<open>
  The \<open>forEach\<close> over the profiles of one connector, given as the array's slots with
  their indices (holes are not visited).  A matching profile is cleared by the write
  \<open>connectorStatus.chargingProfiles[index] = {}\<close>, where \<open>connectorStatus\<close> is the
  status object of the connector the request names (\<open>target\<close>), looked up before the
  loop.  The write throws when that object has no \<open>chargingProfiles\<close> array.
\<close>

fun clearMatching ::
  "ClearChargingProfileRequest \<Rightarrow> int \<Rightarrow> (nat \<times> OCPP16ChargingProfile option) list
     \<Rightarrow> bool \<times> ChargingStation \<Rightarrow> (error + bool) \<times> ChargingStation" where
  "clearMatching commandPayload target [] (clearedCP, cs) = (Inr clearedCP, cs)"
| "clearMatching commandPayload target ((index, None) # rest) (clearedCP, cs) =
     clearMatching commandPayload target rest (clearedCP, cs)"
| "clearMatching commandPayload target ((index, Some chargingProfile) # rest) (clearedCP, cs) =
     (if clearCurrentCP commandPayload chargingProfile then
        (case getConnectorStatus cs target of
           None \<Rightarrow> (Inl TypeError, cs)
         | Some connectorStatus \<Rightarrow>
             (case chargingProfiles connectorStatus of
                None \<Rightarrow> (Inl TypeError, cs)
              | Some arr \<Rightarrow>
                  clearMatching commandPayload target rest
                    (True,
                     updateConnector target
                       (\<lambda>c. c\<lparr>chargingProfiles := Some (arrayWrite index emptyProfile arr)\<rparr>) cs)))
      else clearMatching commandPayload target rest (clearedCP, cs))"

text \<open>The loop over \<open>this.chargingStation.connectors.keys()\<close>.\<close>

fun clearConnectors ::
  "ClearChargingProfileRequest \<Rightarrow> int \<Rightarrow> int list \<Rightarrow> bool \<times> ChargingStation
     \<Rightarrow> (error + bool) \<times> ChargingStation" where
  "clearConnectors commandPayload target [] (clearedCP, cs) = (Inr clearedCP, cs)"
| "clearConnectors commandPayload target (connectorId # rest) (clearedCP, cs) =
     (case getConnectorStatus cs connectorId of
        None \<Rightarrow> (Inl TypeError, cs)
      | Some c \<Rightarrow>
          (case chargingProfiles c of
             None \<Rightarrow> clearConnectors commandPayload target rest (clearedCP, cs)
           | Some arr \<Rightarrow>
               if arr = [] then clearConnectors commandPayload target rest (clearedCP, cs)
               else
                 (case clearMatching commandPayload target (zip [0..<length arr] arr)
                         (clearedCP, cs) of
                    (Inl e, cs') \<Rightarrow> (Inl e, cs')
                  | (Inr clearedCP', cs') \<Rightarrow>
                      clearConnectors commandPayload target rest (clearedCP', cs'))))"

definition handleRequestClearChargingProfile ::
  "ClearChargingProfileRequest \<Rightarrow> ChargingStation
     \<Rightarrow> (error + ClearChargingProfileResponse) \<times> ChargingStation" where
  "handleRequestClearChargingProfile commandPayload cs =
     (if \<not> checkFeatureProfile cs SmartCharging
      then (Inr OCPP_CLEAR_CHARGING_PROFILE_RESPONSE_UNKNOWN, cs)
      else
        (case ccp_connectorId commandPayload of
           None \<Rightarrow>
             \<comment> \<open>\<open>getConnectorStatus(undefined)\<close> finds no connector\<close>
             (Inr OCPP_CLEAR_CHARGING_PROFILE_RESPONSE_UNKNOWN, cs)
         | Some connectorId \<Rightarrow>
             (case getConnectorStatus cs connectorId of
                None \<Rightarrow> (Inr OCPP_CLEAR_CHARGING_PROFILE_RESPONSE_UNKNOWN, cs)
              | Some connectorStatus \<Rightarrow>
                  if connectorId \<noteq> 0 \<and> \<not> isEmptyArray (chargingProfiles connectorStatus) then
                    (Inr OCPP_CLEAR_CHARGING_PROFILE_RESPONSE_ACCEPTED,
                     updateConnector connectorId (\<lambda>c. c\<lparr>chargingProfiles := Some []\<rparr>) cs)
                  else if connectorId = 0 then
                    (case clearConnectors commandPayload connectorId (map fst (connectors cs))
                            (False, cs) of
                       (Inl e, cs') \<Rightarrow> (Inl e, cs')
                     | (Inr clearedCP, cs') \<Rightarrow>
                         if clearedCP then (Inr OCPP_CLEAR_CHARGING_PROFILE_RESPONSE_ACCEPTED, cs')
                         else (Inr OCPP_CLEAR_CHARGING_PROFILE_RESPONSE_UNKNOWN, cs'))
                  else (Inr OCPP_CLEAR_CHARGING_PROFILE_RESPONSE_UNKNOWN, cs))))"

subsection \<open>RemoteStartTransaction and RemoteStopTransaction\<close>

datatype DefaultResponse = OCPP_RESPONSE_ACCEPTED | OCPP_RESPONSE_REJECTED

record RemoteStartTransactionRequest =
  rst_connectorId :: "int option"
  rst_idTag :: string
  rst_chargingProfile :: "OCPP16ChargingProfile option"

definition notifyRemoteStartTransactionRejected ::
  "CentralSystem \<Rightarrow> int option \<Rightarrow> string \<Rightarrow> ChargingStation
     \<Rightarrow> (error + DefaultResponse) \<times> ChargingStation" where
  "notifyRemoteStartTransactionRejected centralSystem connectorId idTag cs =
     (case connectorId of
        None \<Rightarrow> (Inl TypeError, cs)
      | Some k \<Rightarrow>
          (case getConnectorStatus cs k of
             None \<Rightarrow> (Inl TypeError, cs)
           | Some c \<Rightarrow>
               if status c \<noteq> AVAILABLE then
                 (Inr OCPP_RESPONSE_REJECTED,
                  updateConnector k (\<lambda>c. c\<lparr>status := AVAILABLE\<rparr>)
                    (snd (requestHandler centralSystem
                            (STATUS_NOTIFICATION k AVAILABLE NO_ERROR) cs)))
               else (Inr OCPP_RESPONSE_REJECTED, cs)))"

text \<open>
  Modelled from the spec: \<open>ChargingStation.setChargingProfile\<close> is not among the
  source files.  Section 4.4 (SetChargingProfile): the profile is pushed onto the
  connector's stack, "replacing any entry with matching (chargingProfileId) or matching
  (purpose, stackLevel)".  A connector without a stack gets one.
\<close>

definition replacesProfile :: "OCPP16ChargingProfile \<Rightarrow> OCPP16ChargingProfile option \<Rightarrow> bool" where
  "replacesProfile cp slot =
     (case slot of
        None \<Rightarrow> False
      | Some chargingProfile \<Rightarrow>
          chargingProfileId chargingProfile = chargingProfileId cp \<or>
          (stackLevel chargingProfile = stackLevel cp \<and>
           chargingProfilePurpose chargingProfile = chargingProfilePurpose cp))"

definition setChargingProfile ::
  "int \<Rightarrow> OCPP16ChargingProfile \<Rightarrow> ChargingStation \<Rightarrow> ChargingStation" where
  "setChargingProfile connectorId cp cs =
     updateConnector connectorId
       (\<lambda>c. let arr = (case chargingProfiles c of None \<Rightarrow> [] | Some a \<Rightarrow> a)
            in c\<lparr>chargingProfiles :=
                   Some (if list_ex (replacesProfile cp) arr
                         then map (\<lambda>slot. if replacesProfile cp slot then Some cp else slot) arr
                         else arr @ [Some cp])\<rparr>) cs"

definition setRemoteStartTransactionChargingProfile ::
  "int \<Rightarrow> OCPP16ChargingProfile option \<Rightarrow> ChargingStation \<Rightarrow> bool \<times> ChargingStation" where
  "setRemoteStartTransactionChargingProfile connectorId cp cs =
     (case cp of
        Some p \<Rightarrow>
          if chargingProfilePurpose p = Some TX_PROFILE
          then (True, setChargingProfile connectorId p cs)
          else (False, cs)
      | None \<Rightarrow> (True, cs))"

text \<open>
  The block that starts the transaction; the source has it twice, after a successful
  authorization and where no authorization is required.  \<open>.idTagInfo.status\<close> of the
  StartTransaction response is read without a guard.
\<close>

definition startRemoteTransaction ::
  "CentralSystem \<Rightarrow> int \<Rightarrow> RemoteStartTransactionRequest \<Rightarrow> ChargingStation
     \<Rightarrow> (error + DefaultResponse) \<times> ChargingStation" where
  "startRemoteTransaction centralSystem transactionConnectorId commandPayload cs =
     (case setRemoteStartTransactionChargingProfile transactionConnectorId
             (rst_chargingProfile commandPayload) cs of
        (True, cs1) \<Rightarrow>
          (case requestHandler centralSystem
                  (START_TRANSACTION transactionConnectorId (rst_idTag commandPayload))
                  (updateConnector transactionConnectorId
                     (\<lambda>c. c\<lparr>transactionRemoteStarted := True\<rparr>) cs1) of
             (startResponse, cs2) \<Rightarrow>
               (case idTagInfo startResponse of
                  None \<Rightarrow> (Inl TypeError, cs2)
                | Some st \<Rightarrow>
                    if st = ACCEPTED then (Inr OCPP_RESPONSE_ACCEPTED, cs2)
                    else notifyRemoteStartTransactionRejected centralSystem
                           (Some transactionConnectorId) (rst_idTag commandPayload) cs2))
      | (False, cs1) \<Rightarrow>
          notifyRemoteStartTransactionRejected centralSystem (Some transactionConnectorId)
            (rst_idTag commandPayload) cs1)"

text \<open>
  \<open>authorizedTags.find((value) => value === idTag)\<close> yields the tag found, which is
  truthy unless it is the empty string.
\<close>

definition handleRequestRemoteStartTransaction ::
  "CentralSystem \<Rightarrow> RemoteStartTransactionRequest \<Rightarrow> ChargingStation
     \<Rightarrow> (error + DefaultResponse) \<times> ChargingStation" where
  "handleRequestRemoteStartTransaction centralSystem commandPayload cs =
     (case rst_connectorId commandPayload of
        None \<Rightarrow>
          notifyRemoteStartTransactionRejected centralSystem None (rst_idTag commandPayload) cs
      | Some transactionConnectorId \<Rightarrow>
          if transactionConnectorId \<noteq> 0 then
            let cs1 = snd (requestHandler centralSystem
                             (STATUS_NOTIFICATION transactionConnectorId PREPARING NO_ERROR) cs)
            in (case getConnectorStatus cs1 transactionConnectorId of
                  None \<Rightarrow> (Inl TypeError, cs1)
                | Some connectorStatus \<Rightarrow>
                    let cs2 = updateConnector transactionConnectorId
                                (\<lambda>c. c\<lparr>status := PREPARING\<rparr>) cs1
                    in if isChargingStationAvailable cs2 then
                         if authorizeRemoteTxRequests cs2 then
                           (case
                              (if localAuthListEnabled cs2 \<and> hasAuthorizedTags cs2 \<and>
                                  rst_idTag commandPayload \<in> set (authorizedTags cs2) \<and>
                                  rst_idTag commandPayload \<noteq> []
                               then (True,
                                     updateConnector transactionConnectorId
                                       (\<lambda>c. c\<lparr>localAuthorizeIdTag := Some (rst_idTag commandPayload),
                                               idTagLocalAuthorized := True\<rparr>) cs2)
                               else if mayAuthorizeAtRemoteStart cs2 then
                                 (case requestHandler centralSystem
                                         (AUTHORIZE (rst_idTag commandPayload))
                                         (updateConnector transactionConnectorId
                                            (\<lambda>c. c\<lparr>authorizeIdTag := Some (rst_idTag commandPayload)\<rparr>)
                                            cs2) of
                                    (authorizeResponse, cs3) \<Rightarrow>
                                      (idTagInfo authorizeResponse = Some ACCEPTED, cs3))
                               else (False, cs2)) of
                              (True, cs3) \<Rightarrow>
                                startRemoteTransaction centralSystem transactionConnectorId
                                  commandPayload cs3
                            | (False, cs3) \<Rightarrow>
                                notifyRemoteStartTransactionRejected centralSystem
                                  (Some transactionConnectorId) (rst_idTag commandPayload) cs3)
                         else
                           startRemoteTransaction centralSystem transactionConnectorId
                             commandPayload cs2
                       else
                         notifyRemoteStartTransactionRejected centralSystem
                           (Some transactionConnectorId) (rst_idTag commandPayload) cs2)
          else
            notifyRemoteStartTransactionRejected centralSystem (Some transactionConnectorId)
              (rst_idTag commandPayload) cs)"

text \<open>
  The loop over the connector ids returns at the first connector with an id above 0
  whose \<open>transactionId\<close> is the requested one.
\<close>

definition handleRequestRemoteStopTransaction ::
  "CentralSystem \<Rightarrow> int \<Rightarrow> ChargingStation \<Rightarrow> (error + DefaultResponse) \<times> ChargingStation" where
  "handleRequestRemoteStopTransaction centralSystem transactionId_r cs =
     (case find (\<lambda>connectorId. connectorId > 0 \<and>
                   (case getConnectorStatus cs connectorId of
                      None \<Rightarrow> False
                    | Some c \<Rightarrow> transactionId c = Some transactionId_r))
             (map fst (connectors cs)) of
        Some connectorId \<Rightarrow>
          let cs1 = updateConnector connectorId (\<lambda>c. c\<lparr>status := FINISHING\<rparr>)
                      (snd (requestHandler centralSystem
                              (STATUS_NOTIFICATION connectorId FINISHING NO_ERROR) cs));
              cs2 = (if beginEndMeterValues cs1 \<and> ocppStrictCompliance cs1 \<and>
                        \<not> outOfOrderEndMeterValues cs1
                     then snd (requestHandler centralSystem
                            (METER_VALUES connectorId (Some transactionId_r)
                               (getEnergyActiveImportRegisterByTransactionId cs1
                                  (Some transactionId_r))) cs1)
                     else cs1);
              cs3 = snd (requestHandler centralSystem
                      (STOP_TRANSACTION (Some transactionId_r)
                         (getEnergyActiveImportRegisterByTransactionId cs2 (Some transactionId_r))
                         (getTransactionIdTag cs2 (Some transactionId_r)) None) cs2)
          in (Inr OCPP_RESPONSE_ACCEPTED, cs3)
      | None \<Rightarrow> (Inr OCPP_RESPONSE_REJECTED, cs))"

subsection \<open>TriggerMessage\<close>

datatype OCPP16TriggerMessageResponse =
  OCPP_TRIGGER_MESSAGE_RESPONSE_ACCEPTED | OCPP_TRIGGER_MESSAGE_RESPONSE_REJECTED
  | OCPP_TRIGGER_MESSAGE_RESPONSE_NOT_IMPLEMENTED

record OCPP16TriggerMessageRequest =
  tm_requestedMessage :: MessageTrigger
  tm_connectorId :: "int option"

definition setTimeout :: "TriggerCallback \<Rightarrow> ChargingStation \<Rightarrow> ChargingStation" where
  "setTimeout callback cs = cs\<lparr>timeouts := timeouts cs @ [callback]\<rparr>"

text \<open>
  \<open>commandPayload?.connectorId < 0\<close> is false for a request without connector id.
  Nothing inside the \<open>try\<close> block throws: it only registers a callback.
\<close>

definition handleRequestTriggerMessage ::
  "OCPP16TriggerMessageRequest \<Rightarrow> ChargingStation
     \<Rightarrow> OCPP16TriggerMessageResponse \<times> ChargingStation" where
  "handleRequestTriggerMessage commandPayload cs =
     (if \<not> checkFeatureProfile cs RemoteTrigger
      then (OCPP_TRIGGER_MESSAGE_RESPONSE_NOT_IMPLEMENTED, cs)
      else if (case tm_connectorId commandPayload of None \<Rightarrow> False | Some k \<Rightarrow> k < 0)
      then (OCPP_TRIGGER_MESSAGE_RESPONSE_REJECTED, cs)
      else
        (case tm_requestedMessage commandPayload of
           BootNotification \<Rightarrow>
             (OCPP_TRIGGER_MESSAGE_RESPONSE_ACCEPTED, setTimeout TriggerBootNotification cs)
         | Heartbeat \<Rightarrow>
             (OCPP_TRIGGER_MESSAGE_RESPONSE_ACCEPTED, setTimeout TriggerHeartbeat cs)
         | StatusNotification \<Rightarrow>
             (OCPP_TRIGGER_MESSAGE_RESPONSE_ACCEPTED,
              setTimeout (TriggerStatusNotification (tm_connectorId commandPayload)) cs)
         | _ \<Rightarrow> (OCPP_TRIGGER_MESSAGE_RESPONSE_NOT_IMPLEMENTED, cs)))"

text \<open>
  The body of a callback, run when its timer fires on the station as it is then.  The
  StatusNotification callback tests \<open>if (commandPayload?.connectorId)\<close>, which fails
  for an absent connector id and for 0; its loop then sends one notification per key of
  the connector map.
\<close>

fun notifyConnectors :: "CentralSystem \<Rightarrow> int list \<Rightarrow> ChargingStation \<Rightarrow> (error + unit) \<times> ChargingStation" where
  "notifyConnectors centralSystem [] cs = (Inr (), cs)"
| "notifyConnectors centralSystem (connectorId # rest) cs =
     (case getConnectorStatus cs connectorId of
        None \<Rightarrow> (Inl TypeError, cs)
      | Some c \<Rightarrow>
          notifyConnectors centralSystem rest
            (snd (requestHandler centralSystem
                    (STATUS_NOTIFICATION connectorId (status c) NO_ERROR) cs)))"

fun runTriggerCallback ::
  "CentralSystem \<Rightarrow> TriggerCallback \<Rightarrow> ChargingStation \<Rightarrow> (error + unit) \<times> ChargingStation" where
  "runTriggerCallback centralSystem TriggerBootNotification cs =
     (Inr (), snd (requestHandler centralSystem BOOT_NOTIFICATION cs))"
| "runTriggerCallback centralSystem TriggerHeartbeat cs =
     (Inr (), snd (requestHandler centralSystem HEARTBEAT cs))"
| "runTriggerCallback centralSystem (TriggerStatusNotification connectorId) cs =
     (case connectorId of
        None \<Rightarrow> notifyConnectors centralSystem (map fst (connectors cs)) cs
      | Some k \<Rightarrow>
          if k \<noteq> 0 then
            (case getConnectorStatus cs k of
               None \<Rightarrow> (Inl TypeError, cs)
             | Some c \<Rightarrow>
                 (Inr (), snd (requestHandler centralSystem
                                 (STATUS_NOTIFICATION k (status c) NO_ERROR) cs)))
          else notifyConnectors centralSystem (map fst (connectors cs)) cs)"

section \<open>The automatic transaction generator\<close>

record AutomaticTransactionGenerator =
  timeToStop :: bool

text \<open>
  Modelled from the spec: \<open>sendStopTransaction(transactionId, meterStop, idTag,
  reason)\<close> of the request service is not among the source files.  Section 4.6 lists
  it among the helpers derived from \<open>sendRequest\<close>: it sends a StopTransaction with
  these four fields.
\<close>

definition sendStopTransaction ::
  "CentralSystem \<Rightarrow> int option \<Rightarrow> int option \<Rightarrow> string option \<Rightarrow> OCPP16StopTransactionReason
     \<Rightarrow> ChargingStation \<Rightarrow> OutboundResponse \<times> ChargingStation" where
  "sendStopTransaction centralSystem tid meterStop idTag reason cs =
     requestHandler centralSystem (STOP_TRANSACTION tid meterStop idTag (Some reason)) cs"

text \<open>
  The loop of \<open>stop\<close> over the connector ids (\<open>for (const connector in
  this.chargingStation.connectors)\<close>); \<open>getConnector(id)\<close> reads the status object
  of connector \<open>id\<close>, as \<open>getConnectorStatus\<close> does.  The log line of a started
  transaction calls \<open>transactionId.toString()\<close>, which throws when the connector has
  no transaction id.
\<close>

fun stopConnectors ::
  "CentralSystem \<Rightarrow> OCPP16StopTransactionReason \<Rightarrow> int list \<Rightarrow> ChargingStation
     \<Rightarrow> (error + unit) \<times> ChargingStation" where
  "stopConnectors centralSystem reason [] cs = (Inr (), cs)"
| "stopConnectors centralSystem reason (connector # rest) cs =
     (case getConnectorStatus cs connector of
        None \<Rightarrow> (Inl TypeError, cs)
      | Some c \<Rightarrow>
          if transactionStarted c then
            (case transactionId c of
               None \<Rightarrow> (Inl TypeError, cs)
             | Some tid \<Rightarrow>
                 stopConnectors centralSystem reason rest
                   (snd (sendStopTransaction centralSystem (Some tid)
                           (getEnergyActiveImportRegisterByTransactionId cs (Some tid))
                           (getTransactionIdTag cs (Some tid)) reason cs)))
          else stopConnectors centralSystem reason rest cs)"

definition stop ::
  "CentralSystem \<Rightarrow> OCPP16StopTransactionReason \<Rightarrow> AutomaticTransactionGenerator \<times> ChargingStation
     \<Rightarrow> (error + unit) \<times> AutomaticTransactionGenerator \<times> ChargingStation" where
  "stop centralSystem reason state =
     (case state of
        (atg, cs) \<Rightarrow>
          (case stopConnectors centralSystem reason (map fst (connectors cs)) cs of
             (Inl e, cs') \<Rightarrow> (Inl e, atg, cs')
           | (Inr u, cs') \<Rightarrow> (Inr (), atg\<lparr>timeToStop := True\<rparr>, cs')))"

section \<open>Notions the statements below use\<close>

text \<open>
  The value a key reads back with: the value of the entry the case-sensitive lookup
  finds, as GetConfiguration looks it up.
\<close>

definition readBack :: "ChargingStation \<Rightarrow> string \<Rightarrow> string option" where
  "readBack cs k = map_option value_k (getConfigurationKey cs k False)"

text \<open>
  Both heartbeat aliases are stored, and every entry whose key equals them up to case
  is one of the two and can be written.
\<close>

definition aliasesWritable :: "ChargingStation \<Rightarrow> bool" where
  "aliasesWritable cs =
     (let ks = map (\<lambda>e. (key e, readonly e)) (configurationKey cs)
      in (HeartBeatInterval, False) \<in> set ks \<and> (HeartbeatInterval, False) \<in> set ks \<and>
         (\<forall>(k, ro) \<in> set ks.
            toLowerCase k = toLowerCase HeartBeatInterval \<longrightarrow>
              (k = HeartBeatInterval \<or> k = HeartbeatInterval) \<and> \<not> ro))"

text \<open>A sequence of ChangeConfiguration requests, handled one after the other.\<close>

definition changeConfigurations ::
  "ChangeConfigurationRequest list \<Rightarrow> ChargingStation \<Rightarrow> ChargingStation" where
  "changeConfigurations ps cs = fold (\<lambda>p cs. snd (handleRequestChangeConfiguration p cs)) ps cs"

text \<open>
  The store splits at the first entry whose key equals \<open>k\<close> once both are
  lower-cased: \<open>before\<close> holds the entries in front of it, none of which matches,
  and \<open>after\<close> the entries behind it.
\<close>

definition firstEntryUpToCase ::
  "ChargingStation \<Rightarrow> string \<Rightarrow> OCPPConfigurationKey list \<Rightarrow> OCPPConfigurationKey
     \<Rightarrow> OCPPConfigurationKey list \<Rightarrow> bool" where
  "firstEntryUpToCase cs k before keyToChange after =
     (configurationKey cs = before @ keyToChange # after \<and>
      (\<forall>e \<in> set before. toLowerCase (key e) \<noteq> toLowerCase k) \<and>
      toLowerCase (key keyToChange) = toLowerCase k)"

text \<open>
  The connector map has one entry per key, a started transaction sits on a connector
  with an id above 0 and has a transaction id, and no other connector with an id above 0
  carries that transaction id.
\<close>

definition transactionsWellFormed :: "ChargingStation \<Rightarrow> bool" where
  "transactionsWellFormed cs =
     (distinct (map fst (connectors cs)) \<and>
      (\<forall>(k, c) \<in> set (connectors cs).
         transactionStarted c \<longrightarrow>
           0 < k \<and> transactionId c \<noteq> None \<and>
           (\<forall>(k', c') \<in> set (connectors cs).
              0 < k' \<and> transactionId c' = transactionId c \<longrightarrow> k' = k)))"

section \<open>Example stations\<close>

text \<open>Concrete stations and requests at which the theorems below are exercised.\<close>

definition idleConnector :: ConnectorStatus where
  "idleConnector =
     \<lparr>status = AVAILABLE, availability = OPERATIVE, transactionStarted = False,
      transactionId = None, transactionIdTag = None,
      transactionEnergyActiveImportRegister = 0, transactionRemoteStarted = False,
      authorizeIdTag = None, localAuthorizeIdTag = None, idTagLocalAuthorized = False,
      chargingProfiles = Some []\<rparr>"

definition chargingConnector :: "int \<Rightarrow> string \<Rightarrow> int \<Rightarrow> ConnectorStatus" where
  "chargingConnector tid tag register =
     idleConnector\<lparr>status := CHARGING, transactionStarted := True, transactionId := Some tid,
       transactionIdTag := Some tag, transactionEnergyActiveImportRegister := register\<rparr>"

definition writable :: "string \<Rightarrow> string \<Rightarrow> OCPPConfigurationKey" where
  "writable k v = \<lparr>key = k, value_k = v, readonly = False, visible = None, reboot = None\<rparr>"

definition exampleStation :: ChargingStation where
  "exampleStation =
     \<lparr>connectors = [(0, idleConnector), (1, idleConnector), (2, idleConnector)],
      configurationKey =
        [writable ''HeartBeatInterval'' ''60'', writable ''HeartbeatInterval'' ''60'',
         writable ''WebSocketPingInterval'' ''30'',
         (writable ''NumberOfConnectors'' ''2'')\<lparr>readonly := True\<rparr>],
      registration = Registered, ocppStrictCompliance = True, beginEndMeterValues = False,
      outOfOrderEndMeterValues = False, authorizeRemoteTxRequests = False,
      localAuthListEnabled = False, mayAuthorizeAtRemoteStart = False, authorizedTags = [],
      supportedFeatureProfiles = [Core, SmartCharging, RemoteTrigger], requests = [],
      heartbeatRestarts = 0, webSocketPingRestarts = 0, timeouts = []\<rparr>"

definition acceptAll :: CentralSystem where
  "acceptAll request = \<lparr>idTagInfo = Some ACCEPTED\<rparr>"

definition exampleHandlers :: "string \<rightharpoonup> (int, UnlockConnectorResponse) IncomingRequestHandler" where
  "exampleHandlers = [''UnlockConnector'' \<mapsto> handleRequestUnlockConnector acceptAll]"

text \<open>Stores for the heartbeat aliases: out of step, with a reboot flag, with a hidden alias.\<close>

definition unsyncedStation :: ChargingStation where
  "unsyncedStation =
     exampleStation\<lparr>configurationKey :=
       [writable ''HeartBeatInterval'' ''60'', writable ''HeartbeatInterval'' ''30'']\<rparr>"

definition rebootStation :: ChargingStation where
  "rebootStation =
     exampleStation\<lparr>configurationKey :=
       [(writable ''HeartBeatInterval'' ''60'')\<lparr>reboot := Some True\<rparr>,
        writable ''HeartbeatInterval'' ''60'']\<rparr>"

definition hiddenStation :: ChargingStation where
  "hiddenStation =
     exampleStation\<lparr>configurationKey :=
       [writable ''HeartBeatInterval'' ''60'',
        (writable ''HeartbeatInterval'' ''60'')\<lparr>visible := Some False\<rparr>]\<rparr>"

text \<open>
  A station whose connectors 1 and 2 each hold one charging profile with id 7, and a
  station with a transaction running on connector 1 and on connector 2.
\<close>

definition profile7 :: OCPP16ChargingProfile where
  "profile7 =
     \<lparr>chargingProfileId = Some 7, stackLevel = Some 1,
      chargingProfilePurpose = Some TX_DEFAULT_PROFILE\<rparr>"

definition profileStation :: ChargingStation where
  "profileStation =
     exampleStation\<lparr>connectors :=
       [(0, idleConnector),
        (1, idleConnector\<lparr>chargingProfiles := Some [Some profile7]\<rparr>),
        (2, idleConnector\<lparr>chargingProfiles := Some [Some profile7]\<rparr>)]\<rparr>"

definition clearProfile7 :: "int option \<Rightarrow> ClearChargingProfileRequest" where
  "clearProfile7 connectorId =
     \<lparr>ccp_id = Some 7, ccp_connectorId = connectorId, ccp_chargingProfilePurpose = None,
      ccp_stackLevel = None\<rparr>"

definition chargingStation :: ChargingStation where
  "chargingStation =
     exampleStation\<lparr>connectors :=
       [(0, idleConnector), (1, chargingConnector 41 ''TAG-A'' 1500),
        (2, chargingConnector 42 ''TAG-B'' 2750), (3, idleConnector)]\<rparr>"

section \<open>The request router gates and dispatches\<close>

text \<open>
  Claim C1.  For every incoming request \<open>(messageId, commandName, payload)\<close>: when
  strict compliance is on, the station is in the Pending registration state and the
  command is RemoteStartTransaction or RemoteStopTransaction, the router raises
  SecurityError and leaves the station as it was, whatever handlers are registered.
  Otherwise, when the station is neither Registered nor (strict compliance off and
  registration Unknown), the router raises SecurityError as well.  Otherwise the
  command is dispatched: without a registered handler the router raises
  NotImplemented; with one, the handler's response is sent back under the request's
  message id, and an error of the handler is raised again.
\<close>

theorem incomingRequestHandler_gating:
  "(ocppStrictCompliance cs \<and> registration cs = Pending \<and>
      (commandName = REMOTE_START_TRANSACTION \<or> commandName = REMOTE_STOP_TRANSACTION)
      \<longrightarrow> incomingRequestHandler hs messageId commandName payload cs
            = (Inl (OCPPError SECURITY_ERROR commandName), cs))
   \<and> (\<not> (ocppStrictCompliance cs \<and> registration cs = Pending \<and>
          (commandName = REMOTE_START_TRANSACTION \<or> commandName = REMOTE_STOP_TRANSACTION))
      \<longrightarrow>
        (\<not> (registration cs = Registered \<or>
             (\<not> ocppStrictCompliance cs \<and> registration cs = Unknown))
           \<longrightarrow> incomingRequestHandler hs messageId commandName payload cs
                 = (Inl (OCPPError SECURITY_ERROR commandName), cs))
        \<and> (registration cs = Registered \<or>
             (\<not> ocppStrictCompliance cs \<and> registration cs = Unknown)
           \<longrightarrow>
             (hs commandName = None
                \<longrightarrow> incomingRequestHandler hs messageId commandName payload cs
                      = (Inl (OCPPError NOT_IMPLEMENTED commandName), cs))
             \<and> (\<forall>handler response cs'.
                   hs commandName = Some handler \<and> handler payload cs = (Inr response, cs')
                   \<longrightarrow> incomingRequestHandler hs messageId commandName payload cs
                         = (Inr (SentResponse messageId response commandName), cs'))
             \<and> (\<forall>handler e cs'.
                   hs commandName = Some handler \<and> handler payload cs = (Inl e, cs')
                   \<longrightarrow> incomingRequestHandler hs messageId commandName payload cs
                         = (Inl e, cs'))))"
  by (simp add: incomingRequestHandler_def isInPendingState_def isRegistered_def
      isInUnknownState_def)

theorem incomingRequestHandler_gating_witness:
  "incomingRequestHandler exampleHandlers ''m1'' REMOTE_START_TRANSACTION 1
       (exampleStation\<lparr>registration := Pending\<rparr>)
     = (Inl (OCPPError SECURITY_ERROR REMOTE_START_TRANSACTION),
        exampleStation\<lparr>registration := Pending\<rparr>)
   \<and> incomingRequestHandler exampleHandlers ''m2'' ''UnlockConnector'' 0
       (exampleStation\<lparr>registration := Unregistered\<rparr>)
     = (Inl (OCPPError SECURITY_ERROR ''UnlockConnector''),
        exampleStation\<lparr>registration := Unregistered\<rparr>)
   \<and> incomingRequestHandler exampleHandlers ''m3'' ''Reset'' 0 exampleStation
     = (Inl (OCPPError NOT_IMPLEMENTED ''Reset''), exampleStation)
   \<and> incomingRequestHandler exampleHandlers ''m4'' ''UnlockConnector'' 0 exampleStation
     = (Inr (SentResponse ''m4'' OCPP_RESPONSE_UNLOCK_NOT_SUPPORTED ''UnlockConnector''),
        exampleStation)"
proof -
  have strict: "ocppStrictCompliance exampleStation"
    by (simp add: exampleStation_def)
  have reg: "registration exampleStation = Registered"
    by (simp add: exampleStation_def)
  have h: "exampleHandlers ''UnlockConnector'' = Some (handleRequestUnlockConnector acceptAll)"
    "exampleHandlers ''Reset'' = None"
    by (simp_all add: exampleHandlers_def)
  have u: "handleRequestUnlockConnector acceptAll 0 exampleStation
            = (Inr OCPP_RESPONSE_UNLOCK_NOT_SUPPORTED, exampleStation)"
    by (simp add: handleRequestUnlockConnector_def)
  show ?thesis
    using incomingRequestHandler_gating
            [of "exampleStation\<lparr>registration := Pending\<rparr>" REMOTE_START_TRANSACTION
                exampleHandlers "''m1''" 1]
          incomingRequestHandler_gating
            [of "exampleStation\<lparr>registration := Unregistered\<rparr>" "''UnlockConnector''"
                exampleHandlers "''m2''" 0]
          incomingRequestHandler_gating
            [of exampleStation "''Reset''" exampleHandlers "''m3''" 0]
          incomingRequestHandler_gating
            [of exampleStation "''UnlockConnector''" exampleHandlers "''m4''" 0]
          strict reg h u
    by (simp add: REMOTE_START_TRANSACTION_def REMOTE_STOP_TRANSACTION_def)
qed

section \<open>Facts about the configuration store\<close>

lemma toLowerCase_HeartBeatInterval:
  "toLowerCase HeartBeatInterval = ''heartbeatinterval''"
  unfolding HeartBeatInterval_def by code_simp

lemma toLowerCase_HeartbeatInterval:
  "toLowerCase HeartbeatInterval = ''heartbeatinterval''"
  unfolding HeartbeatInterval_def by code_simp

lemma aliases_differ: "HeartBeatInterval \<noteq> HeartbeatInterval"
  by (simp add: HeartBeatInterval_def HeartbeatInterval_def)

lemma aliases_not_ping:
  "HeartBeatInterval \<noteq> WebSocketPingInterval" "HeartbeatInterval \<noteq> WebSocketPingInterval"
  by (simp_all add: HeartBeatInterval_def HeartbeatInterval_def WebSocketPingInterval_def)

lemma updateFirst_map_preserved:
  "(\<And>x. g (f x) = g x) \<Longrightarrow> map g (updateFirst P f xs) = map g xs"
  by (induction xs) auto

lemma updateFirst_same_position:
  "find P xs = Some e \<Longrightarrow> Q e \<Longrightarrow> (\<And>x. Q x \<Longrightarrow> P x)
     \<Longrightarrow> updateFirst P f xs = updateFirst Q f xs"
  by (induction xs) (auto split: if_splits)

lemma find_updateFirst_same:
  "(\<And>x. P (f x) = P x) \<Longrightarrow> find P (updateFirst P f xs) = map_option f (find P xs)"
  by (induction xs) auto

lemma find_updateFirst_other:
  "(\<And>x. Q (f x) = Q x) \<Longrightarrow> (\<And>x. P x \<Longrightarrow> \<not> Q x)
     \<Longrightarrow> find Q (updateFirst P f xs) = find Q xs"
  by (induction xs) auto

lemma keyMatches_writeValue: "keyMatches k ci (writeValue v e) = keyMatches k ci e"
  by (simp add: keyMatches_def writeValue_def)

lemma setConfigurationKeyValue_keys:
  "map (\<lambda>e. (key e, readonly e)) (configurationKey (setConfigurationKeyValue k v ci cs))
     = map (\<lambda>e. (key e, readonly e)) (configurationKey cs)"
  by (simp add: setConfigurationKeyValue_def updateFirst_map_preserved writeValue_def)

lemma handleRequestChangeConfiguration_keys:
  "map (\<lambda>e. (key e, readonly e)) (configurationKey (snd (handleRequestChangeConfiguration p cs)))
     = map (\<lambda>e. (key e, readonly e)) (configurationKey cs)"
  by (simp add: handleRequestChangeConfiguration_def Let_def setConfigurationKeyValue_keys
      restartHeartbeat_def restartWebSocketPing_def split: option.splits)

lemma aliasesWritable_preserved:
  "aliasesWritable (snd (handleRequestChangeConfiguration p cs)) = aliasesWritable cs"
  by (simp add: aliasesWritable_def handleRequestChangeConfiguration_keys)

lemma find_set_same:
  "find (keyMatches k ci) (updateFirst (keyMatches k ci) (writeValue v) xs)
     = map_option (writeValue v) (find (keyMatches k ci) xs)"
  by (rule find_updateFirst_same) (rule keyMatches_writeValue)

lemma find_set_other:
  "k' \<noteq> k \<Longrightarrow> find (keyMatches k' False) (updateFirst (keyMatches k False) (writeValue v) xs)
     = find (keyMatches k' False) xs"
  by (rule find_updateFirst_other) (auto simp: keyMatches_def writeValue_def)

lemma readBack_set_same:
  "getConfigurationKey cs k False = Some e \<Longrightarrow> \<not> readonly e
     \<Longrightarrow> readBack (setConfigurationKeyValue k v False cs) k = Some v"
  by (simp add: readBack_def getConfigurationKey_def setConfigurationKeyValue_def
      find_set_same writeValue_def)

lemma getConfigurationKey_set_other:
  "k' \<noteq> k \<Longrightarrow> getConfigurationKey (setConfigurationKeyValue k v False cs) k' False
     = getConfigurationKey cs k' False"
  by (simp add: getConfigurationKey_def setConfigurationKeyValue_def find_set_other)

lemma readBack_set_other:
  "k' \<noteq> k \<Longrightarrow> readBack (setConfigurationKeyValue k v False cs) k' = readBack cs k'"
  by (simp add: readBack_def getConfigurationKey_set_other)

lemma alias_matches:
  "k = HeartBeatInterval \<or> k = HeartbeatInterval
     \<Longrightarrow> keyMatches k True e = (toLowerCase (key e) = ''heartbeatinterval'')"
  by (auto simp: keyMatches_def toLowerCase_HeartBeatInterval toLowerCase_HeartbeatInterval)

lemma first_alias_entry:
  assumes wf: "aliasesWritable cs"
    and k: "k = HeartBeatInterval \<or> k = HeartbeatInterval"
  shows "\<exists>e0. getConfigurationKey cs k True = Some e0 \<and>
           (key e0 = HeartBeatInterval \<or> key e0 = HeartbeatInterval) \<and> \<not> readonly e0"
proof -
  from wf obtain e where e: "e \<in> set (configurationKey cs)" "key e = HeartBeatInterval"
    by (auto simp: aliasesWritable_def Let_def)
  then have "keyMatches k True e"
    using k by (simp add: alias_matches toLowerCase_HeartBeatInterval)
  with e(1) have "find (keyMatches k True) (configurationKey cs) \<noteq> None"
    by (auto simp: find_None_iff)
  then obtain e0 where e0: "find (keyMatches k True) (configurationKey cs) = Some e0"
    by auto
  then have "e0 \<in> set (configurationKey cs)" "keyMatches k True e0"
    by (auto simp: find_Some_iff)
  then have "(key e0, readonly e0) \<in> set (map (\<lambda>e. (key e, readonly e)) (configurationKey cs))"
    "toLowerCase (key e0) = toLowerCase HeartBeatInterval"
    using k by (auto simp: alias_matches toLowerCase_HeartBeatInterval)
  with wf have "(key e0 = HeartBeatInterval \<or> key e0 = HeartbeatInterval) \<and> \<not> readonly e0"
    unfolding aliasesWritable_def Let_def by blast
  with e0 show ?thesis
    by (simp add: getConfigurationKey_def)
qed

lemma alias_entry_found:
  assumes wf: "aliasesWritable cs"
    and k: "k = HeartBeatInterval \<or> k = HeartbeatInterval"
  shows "\<exists>e. getConfigurationKey cs k False = Some e \<and> \<not> readonly e"
proof -
  from wf k obtain e where e: "e \<in> set (configurationKey cs)" "key e = k"
    by (auto simp: aliasesWritable_def Let_def)
  then have "find (keyMatches k False) (configurationKey cs) \<noteq> None"
    by (auto simp: find_None_iff keyMatches_def)
  then obtain e1 where e1: "find (keyMatches k False) (configurationKey cs) = Some e1"
    by auto
  then have "e1 \<in> set (configurationKey cs)" "key e1 = k"
    by (auto simp: find_Some_iff keyMatches_def)
  then have "(key e1, readonly e1) \<in> set (map (\<lambda>e. (key e, readonly e)) (configurationKey cs))"
    "toLowerCase (key e1) = toLowerCase HeartBeatInterval"
    using k by (auto simp: toLowerCase_HeartBeatInterval toLowerCase_HeartbeatInterval)
  with wf have "\<not> readonly e1"
    unfolding aliasesWritable_def Let_def by blast
  with e1 show ?thesis
    by (simp add: getConfigurationKey_def)
qed

lemma set_caseInsensitive_alias:
  assumes e0: "getConfigurationKey cs k True = Some e0"
    and k: "k = HeartBeatInterval \<or> k = HeartbeatInterval"
  shows "setConfigurationKeyValue k v True cs = setConfigurationKeyValue (key e0) v False cs"
proof -
  have m: "keyMatches k True e0"
    using e0 by (auto simp: getConfigurationKey_def find_Some_iff)
  have "updateFirst (keyMatches k True) (writeValue v) (configurationKey cs)
          = updateFirst (keyMatches (key e0) False) (writeValue v) (configurationKey cs)"
  proof (rule updateFirst_same_position)
    show "find (keyMatches k True) (configurationKey cs) = Some e0"
      using e0 by (simp add: getConfigurationKey_def)
    show "keyMatches (key e0) False e0"
      by (simp add: keyMatches_def)
    show "keyMatches k True x" if "keyMatches (key e0) False x" for x
      using that m by (simp add: keyMatches_def)
  qed
  then show ?thesis
    by (simp add: setConfigurationKeyValue_def)
qed

lemma getConfigurationKey_restartHeartbeat:
  "getConfigurationKey (restartHeartbeat cs) k ci = getConfigurationKey cs k ci"
  by (simp add: getConfigurationKey_def restartHeartbeat_def)

lemma alias_write_state:
  assumes e0: "getConfigurationKey cs (cc_key p) True = Some e0"
    and k: "cc_key p = HeartBeatInterval \<or> cc_key p = HeartbeatInterval"
    and ro: "\<not> readonly e0"
    and changed: "value_k e0 \<noteq> cc_value p"
  shows "key e0 = HeartBeatInterval \<Longrightarrow>
           snd (handleRequestChangeConfiguration p cs)
             = restartHeartbeat (setConfigurationKeyValue HeartbeatInterval (cc_value p) False
                 (setConfigurationKeyValue HeartBeatInterval (cc_value p) False cs))"
    and "key e0 = HeartbeatInterval \<Longrightarrow>
           snd (handleRequestChangeConfiguration p cs)
             = restartHeartbeat (setConfigurationKeyValue HeartBeatInterval (cc_value p) False
                 (setConfigurationKeyValue HeartbeatInterval (cc_value p) False cs))"
    and "fst (handleRequestChangeConfiguration p cs)
           = (if reboot e0 = Some True then OCPP_CONFIGURATION_RESPONSE_REBOOT_REQUIRED
              else OCPP_CONFIGURATION_RESPONSE_ACCEPTED)"
  using e0 ro changed set_caseInsensitive_alias[OF e0 k, of "cc_value p"]
    aliases_differ aliases_not_ping
  by (auto simp: handleRequestChangeConfiguration_def Let_def)

lemma alias_write_unchanged:
  assumes e0: "getConfigurationKey cs (cc_key p) True = Some e0"
    and same: "value_k e0 = cc_value p"
  shows "snd (handleRequestChangeConfiguration p cs) = cs"
  using e0 same by (simp add: handleRequestChangeConfiguration_def Let_def)

lemma alias_entries_after_write:
  assumes wf: "aliasesWritable cs"
    and k: "cc_key p = HeartBeatInterval \<or> cc_key p = HeartbeatInterval"
    and e0: "getConfigurationKey cs (cc_key p) True = Some e0"
    and changed: "value_k e0 \<noteq> cc_value p"
    and a: "a = HeartBeatInterval \<or> a = HeartbeatInterval"
  shows "getConfigurationKey (snd (handleRequestChangeConfiguration p cs)) a False
           = map_option (writeValue (cc_value p)) (getConfigurationKey cs a False)"
proof -
  from first_alias_entry[OF wf k] e0
  have ke0: "key e0 = HeartBeatInterval \<or> key e0 = HeartbeatInterval" and ro: "\<not> readonly e0"
    by auto
  have same: "getConfigurationKey (setConfigurationKeyValue b v False cs') b False
                = map_option (writeValue v) (getConfigurationKey cs' b False)" for b v cs'
    by (simp add: getConfigurationKey_def setConfigurationKeyValue_def find_set_same)
  from ke0 show ?thesis
  proof
    assume "key e0 = HeartBeatInterval"
    from alias_write_state(1)[OF e0 k ro changed this] a aliases_differ show ?thesis
      by (auto simp: getConfigurationKey_restartHeartbeat same getConfigurationKey_set_other)
  next
    assume "key e0 = HeartbeatInterval"
    from alias_write_state(2)[OF e0 k ro changed this] a aliases_differ show ?thesis
      by (auto simp: getConfigurationKey_restartHeartbeat same getConfigurationKey_set_other)
  qed
qed

lemma readBack_after_write:
  assumes wf: "aliasesWritable cs"
    and k: "cc_key p = HeartBeatInterval \<or> cc_key p = HeartbeatInterval"
    and e0: "getConfigurationKey cs (cc_key p) True = Some e0"
    and changed: "value_k e0 \<noteq> cc_value p"
    and a: "a = HeartBeatInterval \<or> a = HeartbeatInterval"
  shows "readBack (snd (handleRequestChangeConfiguration p cs)) a = Some (cc_value p)"
proof -
  from alias_entry_found[OF wf a] obtain e
    where e: "getConfigurationKey cs a False = Some e" "\<not> readonly e"
    by blast
  then show ?thesis
    by (simp add: readBack_def alias_entries_after_write[OF wf k e0 changed a] writeValue_def)
qed

lemma heartbeatRestarts_after_write:
  assumes wf: "aliasesWritable cs"
    and k: "cc_key p = HeartBeatInterval \<or> cc_key p = HeartbeatInterval"
    and e0: "getConfigurationKey cs (cc_key p) True = Some e0"
    and changed: "value_k e0 \<noteq> cc_value p"
  shows "heartbeatRestarts (snd (handleRequestChangeConfiguration p cs)) = Suc (heartbeatRestarts cs)"
proof -
  from first_alias_entry[OF wf k] e0
  have ke0: "key e0 = HeartBeatInterval \<or> key e0 = HeartbeatInterval" and ro: "\<not> readonly e0"
    by auto
  from ke0 show ?thesis
    using alias_write_state(1,2)[OF e0 k ro changed]
    by (auto simp: restartHeartbeat_def setConfigurationKeyValue_def)
qed

lemma getConfiguration_single:
  assumes e: "getConfigurationKey cs k False = Some e" and v: "visible e \<noteq> Some False"
  shows "fst (handleRequestGetConfiguration (Some [k]) cs)
           = \<lparr>response_configurationKey = [(k, readonly e, value_k e)], response_unknownKey = []\<rparr>"
proof -
  from e have "key e = k"
    by (auto simp: getConfigurationKey_def find_Some_iff keyMatches_def)
  with e v show ?thesis
    by (cases "visible e")
       (auto simp: handleRequestGetConfiguration_def isEmptyArray_def defaultVisible_def
          reported_def)
qed

lemma aliases_synchronised_step:
  assumes wf: "aliasesWritable cs"
    and k: "cc_key p = HeartBeatInterval \<or> cc_key p = HeartbeatInterval"
    and sync: "readBack cs HeartBeatInterval = readBack cs HeartbeatInterval"
  shows "readBack (snd (handleRequestChangeConfiguration p cs)) HeartBeatInterval
           = readBack (snd (handleRequestChangeConfiguration p cs)) HeartbeatInterval"
proof -
  from first_alias_entry[OF wf k] obtain e0
    where e0: "getConfigurationKey cs (cc_key p) True = Some e0"
    by blast
  show ?thesis
  proof (cases "value_k e0 = cc_value p")
    case True
    then show ?thesis
      using sync by (simp add: alias_write_unchanged[OF e0])
  next
    case False
    then show ?thesis
      by (simp add: readBack_after_write[OF wf k e0])
  qed
qed

lemma aliases_synchronised_sequence:
  assumes "aliasesWritable cs"
    and "\<forall>q \<in> set ps. cc_key q = HeartBeatInterval \<or> cc_key q = HeartbeatInterval"
    and "readBack cs HeartBeatInterval = readBack cs HeartbeatInterval"
  shows "aliasesWritable (changeConfigurations ps cs) \<and>
         readBack (changeConfigurations ps cs) HeartBeatInterval
           = readBack (changeConfigurations ps cs) HeartbeatInterval"
  using assms
proof (induction ps arbitrary: cs)
  case Nil
  then show ?case by (simp add: changeConfigurations_def)
next
  case (Cons q ps)
  have step: "changeConfigurations (q # ps) cs
                = changeConfigurations ps (snd (handleRequestChangeConfiguration q cs))"
    by (simp add: changeConfigurations_def)
  from Cons.prems have q: "cc_key q = HeartBeatInterval \<or> cc_key q = HeartbeatInterval"
    by simp
  show ?case
    unfolding step
  proof (rule Cons.IH)
    show "aliasesWritable (snd (handleRequestChangeConfiguration q cs))"
      using Cons.prems(1) by (simp add: aliasesWritable_preserved)
    show "\<forall>q \<in> set ps. cc_key q = HeartBeatInterval \<or> cc_key q = HeartbeatInterval"
      using Cons.prems(2) by simp
    show "readBack (snd (handleRequestChangeConfiguration q cs)) HeartBeatInterval
            = readBack (snd (handleRequestChangeConfiguration q cs)) HeartbeatInterval"
      by (rule aliases_synchronised_step[OF Cons.prems(1) q Cons.prems(3)])
  qed
qed

lemma aliasesWritable_sequence:
  "aliasesWritable (changeConfigurations ps cs) = aliasesWritable cs"
  by (induction ps arbitrary: cs) (simp_all add: changeConfigurations_def aliasesWritable_preserved)

lemma find_first_match:
  "\<forall>e \<in> set before. \<not> P e \<Longrightarrow> P e0 \<Longrightarrow> find P (before @ e0 # after) = Some e0"
  by (induction before) simp_all

lemma updateFirst_first_match:
  "\<forall>e \<in> set before. \<not> P e \<Longrightarrow> P e0
     \<Longrightarrow> updateFirst P f (before @ e0 # after) = before @ f e0 # after"
  by (induction before) simp_all

lemma updateFirst_later_match:
  "\<forall>e \<in> set before. \<not> P e \<Longrightarrow> \<not> P e0
     \<Longrightarrow> updateFirst P f (before @ e0 # after) = before @ e0 # updateFirst P f after"
  by (induction before) simp_all

lemma first_match_exists:
  "\<exists>e \<in> set xs. P e
     \<Longrightarrow> \<exists>before e0 after. xs = before @ e0 # after \<and> (\<forall>e \<in> set before. \<not> P e) \<and> P e0"
proof (induction xs)
  case Nil
  then show ?case by simp
next
  case (Cons x xs)
  show ?case
  proof (cases "P x")
    case True
    then have "x # xs = [] @ x # xs \<and> (\<forall>e \<in> set []. \<not> P e) \<and> P x"
      by simp
    then show ?thesis by blast
  next
    case False
    with Cons.prems have "\<exists>e \<in> set xs. P e" by simp
    from Cons.IH[OF this] obtain before e0 after
      where d: "xs = before @ e0 # after" "\<forall>e \<in> set before. \<not> P e" "P e0"
      by blast
    with False have "x # xs = (x # before) @ e0 # after \<and> (\<forall>e \<in> set (x # before). \<not> P e) \<and> P e0"
      by simp
    then show ?thesis by blast
  qed
qed

lemma resolved_write:
  assumes d: "configurationKey cs = before @ keyToChange # after"
    and b: "\<forall>e \<in> set before. toLowerCase (key e) \<noteq> toLowerCase k"
    and m: "toLowerCase (key keyToChange) = toLowerCase k"
    and ro: "\<not> readonly keyToChange"
  shows "setConfigurationKeyValue k v True cs
           = cs\<lparr>configurationKey := before @ keyToChange\<lparr>value_k := v\<rparr> # after\<rparr>"
proof -
  from b have "\<forall>e \<in> set before. \<not> keyMatches k True e"
    by (simp add: keyMatches_def)
  moreover from m have "keyMatches k True keyToChange"
    by (simp add: keyMatches_def)
  ultimately have "updateFirst (keyMatches k True) (writeValue v) (before @ keyToChange # after)
                     = before @ writeValue v keyToChange # after"
    by (rule updateFirst_first_match)
  with d ro show ?thesis
    by (simp add: setConfigurationKeyValue_def writeValue_def)
qed

lemma alias_write_after:
  assumes b: "\<forall>e \<in> set before. toLowerCase (key e) \<noteq> toLowerCase a"
    and k: "key e0 \<noteq> a"
  shows "setConfigurationKeyValue a v False (cs\<lparr>configurationKey := before @ e0 # after\<rparr>)
           = cs\<lparr>configurationKey :=
                 before @ e0 # updateFirst (keyMatches a False) (writeValue v) after\<rparr>"
proof -
  from b have "\<forall>e \<in> set before. \<not> keyMatches a False e"
    by (auto simp: keyMatches_def)
  moreover from k have "\<not> keyMatches a False e0"
    by (simp add: keyMatches_def)
  ultimately have "updateFirst (keyMatches a False) (writeValue v) (before @ e0 # after)
                     = before @ e0 # updateFirst (keyMatches a False) (writeValue v) after"
    by (rule updateFirst_later_match)
  then show ?thesis
    by (simp add: setConfigurationKeyValue_def)
qed

lemma resolved_lookup:
  assumes f: "firstEntryUpToCase cs k before keyToChange after"
  shows "getConfigurationKey cs k True = Some keyToChange"
proof -
  from f have "\<forall>e \<in> set before. \<not> keyMatches k True e" "keyMatches k True keyToChange"
    by (simp_all add: firstEntryUpToCase_def keyMatches_def)
  then have "find (keyMatches k True) (before @ keyToChange # after) = Some keyToChange"
    by (rule find_first_match)
  with f show ?thesis
    by (simp add: getConfigurationKey_def firstEntryUpToCase_def)
qed

lemma resolved_state:
  assumes f: "firstEntryUpToCase cs (cc_key p) before keyToChange after"
    and ro: "\<not> readonly keyToChange"
    and ch: "value_k keyToChange \<noteq> cc_value p"
  shows "snd (handleRequestChangeConfiguration p cs)
           = cs\<lparr>configurationKey :=
                  before @ keyToChange\<lparr>value_k := cc_value p\<rparr> #
                  (if key keyToChange = HeartBeatInterval
                   then updateFirst (keyMatches HeartbeatInterval False)
                          (writeValue (cc_value p)) after
                   else if key keyToChange = HeartbeatInterval
                   then updateFirst (keyMatches HeartBeatInterval False)
                          (writeValue (cc_value p)) after
                   else after),
                heartbeatRestarts :=
                  (if key keyToChange = HeartBeatInterval \<or> key keyToChange = HeartbeatInterval
                   then Suc (heartbeatRestarts cs) else heartbeatRestarts cs),
                webSocketPingRestarts :=
                  (if key keyToChange = WebSocketPingInterval
                   then Suc (webSocketPingRestarts cs) else webSocketPingRestarts cs)\<rparr>"
proof -
  let ?v = "cc_value p"
  let ?e = "keyToChange\<lparr>value_k := ?v\<rparr>"
  from f have d: "configurationKey cs = before @ keyToChange # after"
    and b: "\<forall>e \<in> set before. toLowerCase (key e) \<noteq> toLowerCase (cc_key p)"
    and m: "toLowerCase (key keyToChange) = toLowerCase (cc_key p)"
    by (simp_all add: firstEntryUpToCase_def)
  note g = resolved_lookup[OF f]
  note w = resolved_write[OF d b m ro, of ?v]
  consider (upper) "key keyToChange = HeartBeatInterval"
    | (lower) "key keyToChange = HeartbeatInterval"
    | (other) "key keyToChange \<noteq> HeartBeatInterval" "key keyToChange \<noteq> HeartbeatInterval"
    by blast
  then show ?thesis
  proof cases
    case upper
    from b m upper have b': "\<forall>e \<in> set before. toLowerCase (key e) \<noteq> toLowerCase HeartbeatInterval"
      by (simp add: toLowerCase_HeartBeatInterval toLowerCase_HeartbeatInterval)
    from upper aliases_differ have k': "key ?e \<noteq> HeartbeatInterval"
      by simp
    note a = alias_write_after[OF b' k', where v = ?v and cs = cs and after = after]
    from g ro ch upper aliases_differ aliases_not_ping show ?thesis
      by (simp add: handleRequestChangeConfiguration_def Let_def w a restartHeartbeat_def)
  next
    case lower
    from b m lower have b': "\<forall>e \<in> set before. toLowerCase (key e) \<noteq> toLowerCase HeartBeatInterval"
      by (simp add: toLowerCase_HeartBeatInterval toLowerCase_HeartbeatInterval)
    from lower aliases_differ have k': "key ?e \<noteq> HeartBeatInterval"
      by simp
    note a = alias_write_after[OF b' k', where v = ?v and cs = cs and after = after]
    from g ro ch lower aliases_differ aliases_not_ping show ?thesis
      by (simp add: handleRequestChangeConfiguration_def Let_def w a restartHeartbeat_def)
  next
    case other
    from g ro ch other show ?thesis
      by (simp add: handleRequestChangeConfiguration_def Let_def w restartWebSocketPing_def)
  qed
qed

section \<open>ChangeConfiguration: unknown and read-only keys\<close>

text \<open>
  Claim C4.  For every ChangeConfiguration request: when the key resolves to no stored
  entry (the handler's lookup finds nothing) the response is NotSupported and the
  station is unchanged; when the resolved entry is read-only the response is Rejected
  and the station is unchanged, so the entry keeps its value and neither the heartbeat
  nor the WebSocket ping is restarted.
\<close>

theorem changeConfiguration_unknown_or_readonly:
  "(getConfigurationKey cs (cc_key p) True = None \<longrightarrow>
      handleRequestChangeConfiguration p cs = (OCPP_CONFIGURATION_RESPONSE_NOT_SUPPORTED, cs))
   \<and> (\<forall>keyToChange.
         getConfigurationKey cs (cc_key p) True = Some keyToChange \<and> readonly keyToChange \<longrightarrow>
           handleRequestChangeConfiguration p cs = (OCPP_CONFIGURATION_RESPONSE_REJECTED, cs) \<and>
           getConfigurationKey (snd (handleRequestChangeConfiguration p cs)) (cc_key p) True
             = Some keyToChange \<and>
           heartbeatRestarts (snd (handleRequestChangeConfiguration p cs)) = heartbeatRestarts cs \<and>
           webSocketPingRestarts (snd (handleRequestChangeConfiguration p cs))
             = webSocketPingRestarts cs)"
  by (simp add: handleRequestChangeConfiguration_def)

text \<open>
  The theorem at an unknown key and at the read-only key \<open>NumberOfConnectors\<close> of
  the example station.
\<close>

theorem changeConfiguration_unknown_or_readonly_witness:
  "handleRequestChangeConfiguration \<lparr>cc_key = ''MeterValueSampleInterval'', cc_value = ''5''\<rparr>
       exampleStation
     = (OCPP_CONFIGURATION_RESPONSE_NOT_SUPPORTED, exampleStation)
   \<and> handleRequestChangeConfiguration \<lparr>cc_key = ''NumberOfConnectors'', cc_value = ''5''\<rparr>
       exampleStation
     = (OCPP_CONFIGURATION_RESPONSE_REJECTED, exampleStation)"
proof -
  let ?u = "\<lparr>cc_key = ''MeterValueSampleInterval'', cc_value = ''5''\<rparr>"
  let ?r = "\<lparr>cc_key = ''NumberOfConnectors'', cc_value = ''5''\<rparr>"
  have u: "getConfigurationKey exampleStation (cc_key ?u) True = None"
    by code_simp
  have r: "getConfigurationKey exampleStation (cc_key ?r) True
             = Some ((writable ''NumberOfConnectors'' ''2'')\<lparr>readonly := True\<rparr>)"
    by code_simp
  have ro: "readonly ((writable ''NumberOfConnectors'' ''2'')\<lparr>readonly := True\<rparr>)"
    by simp
  from changeConfiguration_unknown_or_readonly[of exampleStation ?u] u
  have a: "handleRequestChangeConfiguration ?u exampleStation
             = (OCPP_CONFIGURATION_RESPONSE_NOT_SUPPORTED, exampleStation)"
    by simp
  from changeConfiguration_unknown_or_readonly[of exampleStation ?r] r ro
  have b: "handleRequestChangeConfiguration ?r exampleStation
             = (OCPP_CONFIGURATION_RESPONSE_REJECTED, exampleStation)"
    by simp
  from a b show ?thesis
    by (rule conjI)
qed

section \<open>ChangeConfiguration: how the key is resolved\<close>

text \<open>
  Claim C8 states that keys are compared case-sensitively, so that a key which matches
  a stored key only up to case is answered NotSupported and changes nothing.  The
  handler looks the key up with the case-insensitive flag set: on the example station
  the key \<open>heartbeatinterval\<close>, which is no stored key, is accepted and both
  heartbeat aliases take the new value.
\<close>

theorem changeConfiguration_case_sensitive_counterexample:
  "''heartbeatinterval'' \<notin> set (map key (configurationKey exampleStation))
   \<and> fst (handleRequestChangeConfiguration
            \<lparr>cc_key = ''heartbeatinterval'', cc_value = ''30''\<rparr> exampleStation)
       = OCPP_CONFIGURATION_RESPONSE_ACCEPTED
   \<and> map value_k (configurationKey exampleStation) = [''60'', ''60'', ''30'', ''2'']
   \<and> map value_k (configurationKey (snd (handleRequestChangeConfiguration
            \<lparr>cc_key = ''heartbeatinterval'', cc_value = ''30''\<rparr> exampleStation)))
       = [''30'', ''30'', ''30'', ''2'']"
  by code_simp

text \<open>
  Claim C8, amended.  ChangeConfiguration resolves its key case-insensitively, to the
  first stored entry whose key equals the request key once both are lower-cased; that
  entry need not be the one spelled like the request.  When no entry matches, the answer
  is NotSupported and the station is unchanged.  When some entry matches, a first such
  entry exists, it is the entry the handler's lookup returns, and: the answer is Rejected
  if it is read-only, else RebootRequired if it carries the reboot flag, else Accepted;
  if it is read-only or already holds the requested value the station is unchanged;
  otherwise that entry takes the requested value, the entries before it are unchanged,
  the entries after it are unchanged except that, when its key is \<open>HeartBeatInterval\<close>
  (\<open>HeartbeatInterval\<close>), the first later entry keyed exactly
  \<open>HeartbeatInterval\<close> (\<open>HeartBeatInterval\<close>) takes the value too unless it is
  read-only; the heartbeat is restarted once if its key is one of the two aliases, the
  WebSocket ping once if its key is \<open>WebSocketPingInterval\<close>, and nothing else
  of the station changes.
\<close>

theorem changeConfiguration_resolves_key_case_insensitively:
  "((\<forall>e \<in> set (configurationKey cs). toLowerCase (key e) \<noteq> toLowerCase (cc_key p)) \<longrightarrow>
      handleRequestChangeConfiguration p cs = (OCPP_CONFIGURATION_RESPONSE_NOT_SUPPORTED, cs))
   \<and> ((\<exists>e \<in> set (configurationKey cs). toLowerCase (key e) = toLowerCase (cc_key p)) \<longrightarrow>
      (\<exists>before keyToChange after. firstEntryUpToCase cs (cc_key p) before keyToChange after))
   \<and> (\<forall>before keyToChange after.
        firstEntryUpToCase cs (cc_key p) before keyToChange after \<longrightarrow>
          getConfigurationKey cs (cc_key p) True = Some keyToChange
          \<and> fst (handleRequestChangeConfiguration p cs)
              = (if readonly keyToChange then OCPP_CONFIGURATION_RESPONSE_REJECTED
                 else if reboot keyToChange = Some True
                 then OCPP_CONFIGURATION_RESPONSE_REBOOT_REQUIRED
                 else OCPP_CONFIGURATION_RESPONSE_ACCEPTED)
          \<and> snd (handleRequestChangeConfiguration p cs)
              = (if readonly keyToChange \<or> value_k keyToChange = cc_value p then cs
                 else cs\<lparr>configurationKey :=
                        before @ keyToChange\<lparr>value_k := cc_value p\<rparr> #
                        (if key keyToChange = HeartBeatInterval
                         then updateFirst (keyMatches HeartbeatInterval False)
                                (writeValue (cc_value p)) after
                         else if key keyToChange = HeartbeatInterval
                         then updateFirst (keyMatches HeartBeatInterval False)
                                (writeValue (cc_value p)) after
                         else after),
                      heartbeatRestarts :=
                        (if key keyToChange = HeartBeatInterval
                            \<or> key keyToChange = HeartbeatInterval
                         then Suc (heartbeatRestarts cs) else heartbeatRestarts cs),
                      webSocketPingRestarts :=
                        (if key keyToChange = WebSocketPingInterval
                         then Suc (webSocketPingRestarts cs)
                         else webSocketPingRestarts cs)\<rparr>))"
proof (intro conjI impI allI)
  assume "\<forall>e \<in> set (configurationKey cs). toLowerCase (key e) \<noteq> toLowerCase (cc_key p)"
  then have "getConfigurationKey cs (cc_key p) True = None"
    by (simp add: getConfigurationKey_def find_None_iff keyMatches_def)
  then show "handleRequestChangeConfiguration p cs
               = (OCPP_CONFIGURATION_RESPONSE_NOT_SUPPORTED, cs)"
    by (simp add: handleRequestChangeConfiguration_def)
next
  assume "\<exists>e \<in> set (configurationKey cs). toLowerCase (key e) = toLowerCase (cc_key p)"
  from first_match_exists[of "configurationKey cs"
      "\<lambda>e. toLowerCase (key e) = toLowerCase (cc_key p)", OF this]
  show "\<exists>before keyToChange after. firstEntryUpToCase cs (cc_key p) before keyToChange after"
    unfolding firstEntryUpToCase_def .
next
  fix before keyToChange after
  assume f: "firstEntryUpToCase cs (cc_key p) before keyToChange after"
  show "getConfigurationKey cs (cc_key p) True = Some keyToChange"
    by (rule resolved_lookup[OF f])
next
  fix before keyToChange after
  assume f: "firstEntryUpToCase cs (cc_key p) before keyToChange after"
  from resolved_lookup[OF f]
  show "fst (handleRequestChangeConfiguration p cs)
          = (if readonly keyToChange then OCPP_CONFIGURATION_RESPONSE_REJECTED
             else if reboot keyToChange = Some True
             then OCPP_CONFIGURATION_RESPONSE_REBOOT_REQUIRED
             else OCPP_CONFIGURATION_RESPONSE_ACCEPTED)"
    by (simp add: handleRequestChangeConfiguration_def Let_def)
next
  fix before keyToChange after
  assume f: "firstEntryUpToCase cs (cc_key p) before keyToChange after"
  show "snd (handleRequestChangeConfiguration p cs)
          = (if readonly keyToChange \<or> value_k keyToChange = cc_value p then cs
             else cs\<lparr>configurationKey :=
                    before @ keyToChange\<lparr>value_k := cc_value p\<rparr> #
                    (if key keyToChange = HeartBeatInterval
                     then updateFirst (keyMatches HeartbeatInterval False)
                            (writeValue (cc_value p)) after
                     else if key keyToChange = HeartbeatInterval
                     then updateFirst (keyMatches HeartBeatInterval False)
                            (writeValue (cc_value p)) after
                     else after),
                  heartbeatRestarts :=
                    (if key keyToChange = HeartBeatInterval
                        \<or> key keyToChange = HeartbeatInterval
                     then Suc (heartbeatRestarts cs) else heartbeatRestarts cs),
                  webSocketPingRestarts :=
                    (if key keyToChange = WebSocketPingInterval
                     then Suc (webSocketPingRestarts cs)
                     else webSocketPingRestarts cs)\<rparr>)"
  proof (cases "readonly keyToChange \<or> value_k keyToChange = cc_value p")
    case True
    with resolved_lookup[OF f] show ?thesis
      by (auto simp: handleRequestChangeConfiguration_def Let_def)
  next
    case False
    then have "\<not> readonly keyToChange" "value_k keyToChange \<noteq> cc_value p"
      by simp_all
    from resolved_state[OF f this] False show ?thesis
      by simp
  qed
qed

text \<open>
  The theorem on the example station: at an unknown key; at \<open>HeartbeatInterval\<close>,
  which resolves to the entry \<open>HeartBeatInterval\<close> stored in front of it; at
  \<open>websocketpinginterval\<close>, which resolves to the third entry; and at
  \<open>numberofconnectors\<close>, which resolves to a read-only entry.
\<close>

theorem changeConfiguration_resolves_key_case_insensitively_witness:
  "handleRequestChangeConfiguration \<lparr>cc_key = ''MeterValueSampleInterval'', cc_value = ''5''\<rparr>
       exampleStation
     = (OCPP_CONFIGURATION_RESPONSE_NOT_SUPPORTED, exampleStation)
   \<and> getConfigurationKey exampleStation ''HeartbeatInterval'' True
     = Some (writable ''HeartBeatInterval'' ''60'')
   \<and> fst (handleRequestChangeConfiguration
            \<lparr>cc_key = ''HeartbeatInterval'', cc_value = ''30''\<rparr> exampleStation)
     = OCPP_CONFIGURATION_RESPONSE_ACCEPTED
   \<and> configurationKey (snd (handleRequestChangeConfiguration
            \<lparr>cc_key = ''HeartbeatInterval'', cc_value = ''30''\<rparr> exampleStation))
     = [writable ''HeartBeatInterval'' ''30'', writable ''HeartbeatInterval'' ''30'',
        writable ''WebSocketPingInterval'' ''30'',
        (writable ''NumberOfConnectors'' ''2'')\<lparr>readonly := True\<rparr>]
   \<and> getConfigurationKey exampleStation ''websocketpinginterval'' True
     = Some (writable ''WebSocketPingInterval'' ''30'')
   \<and> fst (handleRequestChangeConfiguration
            \<lparr>cc_key = ''websocketpinginterval'', cc_value = ''45''\<rparr> exampleStation)
     = OCPP_CONFIGURATION_RESPONSE_ACCEPTED
   \<and> configurationKey (snd (handleRequestChangeConfiguration
            \<lparr>cc_key = ''websocketpinginterval'', cc_value = ''45''\<rparr> exampleStation))
     = [writable ''HeartBeatInterval'' ''60'', writable ''HeartbeatInterval'' ''60'',
        writable ''WebSocketPingInterval'' ''45'',
        (writable ''NumberOfConnectors'' ''2'')\<lparr>readonly := True\<rparr>]
   \<and> handleRequestChangeConfiguration
        \<lparr>cc_key = ''numberofconnectors'', cc_value = ''4''\<rparr> exampleStation
     = (OCPP_CONFIGURATION_RESPONSE_REJECTED, exampleStation)"
proof -
  let ?u = "\<lparr>cc_key = ''MeterValueSampleInterval'', cc_value = ''5''\<rparr>"
  let ?h = "\<lparr>cc_key = ''HeartbeatInterval'', cc_value = ''30''\<rparr>"
  let ?w = "\<lparr>cc_key = ''websocketpinginterval'', cc_value = ''45''\<rparr>"
  let ?n = "\<lparr>cc_key = ''numberofconnectors'', cc_value = ''4''\<rparr>"
  let ?upper = "writable ''HeartBeatInterval'' ''60''"
  let ?lower = "writable ''HeartbeatInterval'' ''60''"
  let ?ping = "writable ''WebSocketPingInterval'' ''30''"
  let ?number = "(writable ''NumberOfConnectors'' ''2'')\<lparr>readonly := True\<rparr>"
  have u: "\<forall>e \<in> set (configurationKey exampleStation).
             toLowerCase (key e) \<noteq> toLowerCase (cc_key ?u)"
    by code_simp
  have h: "firstEntryUpToCase exampleStation (cc_key ?h) [] ?upper [?lower, ?ping, ?number]"
    by code_simp
  have w: "firstEntryUpToCase exampleStation (cc_key ?w) [?upper, ?lower] ?ping [?number]"
    by code_simp
  have n: "firstEntryUpToCase exampleStation (cc_key ?n) [?upper, ?lower, ?ping] ?number []"
    by code_simp
  from changeConfiguration_resolves_key_case_insensitively[of exampleStation ?u] u
  have a: "handleRequestChangeConfiguration ?u exampleStation
             = (OCPP_CONFIGURATION_RESPONSE_NOT_SUPPORTED, exampleStation)"
    by (rule_tac mp) (erule conjunct1)
  note th = changeConfiguration_resolves_key_case_insensitively[of exampleStation ?h,
      THEN conjunct2, THEN conjunct2, THEN spec, THEN spec, THEN spec, THEN mp, OF h]
  note tw = changeConfiguration_resolves_key_case_insensitively[of exampleStation ?w,
      THEN conjunct2, THEN conjunct2, THEN spec, THEN spec, THEN spec, THEN mp, OF w]
  note tn = changeConfiguration_resolves_key_case_insensitively[of exampleStation ?n,
      THEN conjunct2, THEN conjunct2, THEN spec, THEN spec, THEN spec, THEN mp, OF n]
  from th[THEN conjunct1]
  have h1: "getConfigurationKey exampleStation ''HeartbeatInterval'' True = Some ?upper"
    by simp
  from th[THEN conjunct2, THEN conjunct1]
  have h2: "fst (handleRequestChangeConfiguration ?h exampleStation)
              = OCPP_CONFIGURATION_RESPONSE_ACCEPTED"
    by (simp add: writable_def)
  from th[THEN conjunct2, THEN conjunct2]
  have h3: "configurationKey (snd (handleRequestChangeConfiguration ?h exampleStation))
              = [writable ''HeartBeatInterval'' ''30'', writable ''HeartbeatInterval'' ''30'',
                 ?ping, ?number]"
    by (simp add: writable_def HeartBeatInterval_def HeartbeatInterval_def
        WebSocketPingInterval_def keyMatches_def writeValue_def)
  from tw[THEN conjunct1]
  have w1: "getConfigurationKey exampleStation ''websocketpinginterval'' True = Some ?ping"
    by simp
  from tw[THEN conjunct2, THEN conjunct1]
  have w2: "fst (handleRequestChangeConfiguration ?w exampleStation)
              = OCPP_CONFIGURATION_RESPONSE_ACCEPTED"
    by (simp add: writable_def)
  from tw[THEN conjunct2, THEN conjunct2]
  have w3: "configurationKey (snd (handleRequestChangeConfiguration ?w exampleStation))
              = [?upper, ?lower, writable ''WebSocketPingInterval'' ''45'', ?number]"
    by (simp add: writable_def HeartBeatInterval_def HeartbeatInterval_def
        WebSocketPingInterval_def)
  from tn[THEN conjunct2, THEN conjunct1] tn[THEN conjunct2, THEN conjunct2]
  have n1: "handleRequestChangeConfiguration ?n exampleStation
              = (OCPP_CONFIGURATION_RESPONSE_REJECTED, exampleStation)"
    by (simp add: writable_def prod_eq_iff)
  from a h1 h2 h3 w1 w2 w3 n1 show ?thesis
    by (intro conjI)
qed

section \<open>ChangeConfiguration: the heartbeat aliases\<close>

text \<open>
  Claim C3 states that after every accepted write to \<open>HeartbeatInterval\<close> or
  \<open>HeartBeatInterval\<close> the two keys read back equal, and that a write which changes
  the value returns Accepted and lets GetConfiguration of the sibling return the
  written value.  Three stores refute it as stated.  Where the aliases are out of step
  (60 and 30), writing 60 to \<open>HeartbeatInterval\<close> is compared with the value of
  the alias stored first, found unchanged and accepted without a write.  Where the
  entry has its reboot flag set, the response is RebootRequired.  Where the sibling is
  hidden, GetConfiguration leaves it out.
\<close>

theorem heartbeat_aliases_counterexample:
  "fst (handleRequestChangeConfiguration
          \<lparr>cc_key = ''HeartbeatInterval'', cc_value = ''60''\<rparr> unsyncedStation)
     = OCPP_CONFIGURATION_RESPONSE_ACCEPTED
   \<and> readBack (snd (handleRequestChangeConfiguration
          \<lparr>cc_key = ''HeartbeatInterval'', cc_value = ''60''\<rparr> unsyncedStation))
        ''HeartBeatInterval'' = Some ''60''
   \<and> readBack (snd (handleRequestChangeConfiguration
          \<lparr>cc_key = ''HeartbeatInterval'', cc_value = ''60''\<rparr> unsyncedStation))
        ''HeartbeatInterval'' = Some ''30''
   \<and> fst (handleRequestChangeConfiguration
          \<lparr>cc_key = ''HeartBeatInterval'', cc_value = ''30''\<rparr> rebootStation)
     = OCPP_CONFIGURATION_RESPONSE_REBOOT_REQUIRED
   \<and> fst (handleRequestGetConfiguration (Some [''HeartbeatInterval''])
          (snd (handleRequestChangeConfiguration
                  \<lparr>cc_key = ''HeartBeatInterval'', cc_value = ''30''\<rparr> hiddenStation)))
     = \<lparr>response_configurationKey = [], response_unknownKey = []\<rparr>"
  by code_simp

text \<open>
  Claim C3, amended.  Let both aliases be stored, and let every entry whose key equals
  them up to case be one of the two and writable.  Then after any sequence \<open>ps\<close> of
  ChangeConfiguration requests for the aliases, the two keys read back equal if they
  did before the sequence.  A further request \<open>p\<close> for either alias resolves to
  the alias stored first (\<open>keyToChange\<close>): if its value is the requested one,
  nothing changes; otherwise both aliases read back the written value, the heartbeat is
  restarted exactly once, the response is Accepted (RebootRequired when
  \<open>keyToChange\<close> has its reboot flag set), and GetConfiguration of either alias that
  is not hidden returns the written value.
\<close>

theorem heartbeat_aliases_kept_synchronised:
  assumes wf: "aliasesWritable cs0"
    and ps: "\<forall>q \<in> set ps. cc_key q = HeartBeatInterval \<or> cc_key q = HeartbeatInterval"
    and p: "cc_key p = HeartBeatInterval \<or> cc_key p = HeartbeatInterval"
  shows
    "(readBack cs0 HeartBeatInterval = readBack cs0 HeartbeatInterval \<longrightarrow>
        readBack (changeConfigurations ps cs0) HeartBeatInterval
          = readBack (changeConfigurations ps cs0) HeartbeatInterval)
     \<and> (\<exists>keyToChange.
          getConfigurationKey (changeConfigurations ps cs0) (cc_key p) True = Some keyToChange \<and>
          (value_k keyToChange = cc_value p \<longrightarrow>
             snd (handleRequestChangeConfiguration p (changeConfigurations ps cs0))
               = changeConfigurations ps cs0) \<and>
          (value_k keyToChange \<noteq> cc_value p \<longrightarrow>
             (case handleRequestChangeConfiguration p (changeConfigurations ps cs0) of
                (response, cs') \<Rightarrow>
                  response = (if reboot keyToChange = Some True
                              then OCPP_CONFIGURATION_RESPONSE_REBOOT_REQUIRED
                              else OCPP_CONFIGURATION_RESPONSE_ACCEPTED) \<and>
                  readBack cs' HeartBeatInterval = Some (cc_value p) \<and>
                  readBack cs' HeartbeatInterval = Some (cc_value p) \<and>
                  heartbeatRestarts cs' = Suc (heartbeatRestarts (changeConfigurations ps cs0)) \<and>
                  (\<forall>a e. (a = HeartBeatInterval \<or> a = HeartbeatInterval) \<and>
                         getConfigurationKey (changeConfigurations ps cs0) a False = Some e \<and>
                         visible e \<noteq> Some False \<longrightarrow>
                         fst (handleRequestGetConfiguration (Some [a]) cs')
                           = \<lparr>response_configurationKey = [(a, False, cc_value p)],
                              response_unknownKey = []\<rparr>))))"
proof -
  define cs where "cs = changeConfigurations ps cs0"
  have wf': "aliasesWritable cs"
    using wf by (simp add: cs_def aliasesWritable_sequence)
  from first_alias_entry[OF wf' p] obtain e0
    where e0: "getConfigurationKey cs (cc_key p) True = Some e0"
    by blast
  have seq: "readBack cs0 HeartBeatInterval = readBack cs0 HeartbeatInterval \<longrightarrow>
               readBack cs HeartBeatInterval = readBack cs HeartbeatInterval"
    using aliases_synchronised_sequence[OF wf ps] by (simp add: cs_def)
  have same: "value_k e0 = cc_value p \<longrightarrow> snd (handleRequestChangeConfiguration p cs) = cs"
    using alias_write_unchanged[OF e0] by simp
  have changed:
    "case handleRequestChangeConfiguration p cs of
       (response, cs') \<Rightarrow>
         response = (if reboot e0 = Some True
                     then OCPP_CONFIGURATION_RESPONSE_REBOOT_REQUIRED
                     else OCPP_CONFIGURATION_RESPONSE_ACCEPTED) \<and>
         readBack cs' HeartBeatInterval = Some (cc_value p) \<and>
         readBack cs' HeartbeatInterval = Some (cc_value p) \<and>
         heartbeatRestarts cs' = Suc (heartbeatRestarts cs) \<and>
         (\<forall>a e. (a = HeartBeatInterval \<or> a = HeartbeatInterval) \<and>
                getConfigurationKey cs a False = Some e \<and> visible e \<noteq> Some False \<longrightarrow>
                fst (handleRequestGetConfiguration (Some [a]) cs')
                  = \<lparr>response_configurationKey = [(a, False, cc_value p)],
                     response_unknownKey = []\<rparr>)"
    if ne: "value_k e0 \<noteq> cc_value p"
  proof -
    obtain response cs' where r: "handleRequestChangeConfiguration p cs = (response, cs')"
      by (cases "handleRequestChangeConfiguration p cs")
    from first_alias_entry[OF wf' p] e0 have ro: "\<not> readonly e0"
      by auto
    have resp: "response = (if reboot e0 = Some True
                     then OCPP_CONFIGURATION_RESPONSE_REBOOT_REQUIRED
                     else OCPP_CONFIGURATION_RESPONSE_ACCEPTED)"
      using alias_write_state(3)[OF e0 p ro ne] r by simp
    have rb: "readBack cs' a = Some (cc_value p)"
      if "a = HeartBeatInterval \<or> a = HeartbeatInterval" for a
      using readBack_after_write[OF wf' p e0 ne that] r by simp
    have hb: "heartbeatRestarts cs' = Suc (heartbeatRestarts cs)"
      using heartbeatRestarts_after_write[OF wf' p e0 ne] r by simp
    have gc: "fst (handleRequestGetConfiguration (Some [a]) cs')
                = \<lparr>response_configurationKey = [(a, False, cc_value p)],
                   response_unknownKey = []\<rparr>"
      if a: "a = HeartBeatInterval \<or> a = HeartbeatInterval"
        and e: "getConfigurationKey cs a False = Some e" and v: "visible e \<noteq> Some False"
      for a e
    proof -
      from alias_entry_found[OF wf' a] e have roe: "\<not> readonly e"
        by auto
      have after: "getConfigurationKey cs' a False = Some (writeValue (cc_value p) e)"
        using alias_entries_after_write[OF wf' p e0 ne a] r e by simp
      have "visible (writeValue (cc_value p) e) \<noteq> Some False"
        using v by (simp add: writeValue_def)
      from getConfiguration_single[OF after this] roe show ?thesis
        by (simp add: writeValue_def)
    qed
    from resp rb hb gc show ?thesis
      unfolding r by (simp only: split_conv) blast
  qed
  have "\<exists>keyToChange.
          getConfigurationKey cs (cc_key p) True = Some keyToChange \<and>
          (value_k keyToChange = cc_value p \<longrightarrow>
             snd (handleRequestChangeConfiguration p cs) = cs) \<and>
          (value_k keyToChange \<noteq> cc_value p \<longrightarrow>
             (case handleRequestChangeConfiguration p cs of
                (response, cs') \<Rightarrow>
                  response = (if reboot keyToChange = Some True
                              then OCPP_CONFIGURATION_RESPONSE_REBOOT_REQUIRED
                              else OCPP_CONFIGURATION_RESPONSE_ACCEPTED) \<and>
                  readBack cs' HeartBeatInterval = Some (cc_value p) \<and>
                  readBack cs' HeartbeatInterval = Some (cc_value p) \<and>
                  heartbeatRestarts cs' = Suc (heartbeatRestarts cs) \<and>
                  (\<forall>a e. (a = HeartBeatInterval \<or> a = HeartbeatInterval) \<and>
                         getConfigurationKey cs a False = Some e \<and>
                         visible e \<noteq> Some False \<longrightarrow>
                         fst (handleRequestGetConfiguration (Some [a]) cs')
                           = \<lparr>response_configurationKey = [(a, False, cc_value p)],
                              response_unknownKey = []\<rparr>)))"
  proof (intro exI conjI impI)
    show "getConfigurationKey cs (cc_key p) True = Some e0"
      by (rule e0)
    show "snd (handleRequestChangeConfiguration p cs) = cs" if "value_k e0 = cc_value p"
      using same that by (rule mp)
  qed (rule changed)
  with seq show ?thesis
    unfolding cs_def by (rule conjI)
qed

text \<open>
  The theorem on the example station: \<open>HeartBeatInterval\<close> is written from 60 to 30.
\<close>

theorem heartbeat_aliases_kept_synchronised_witness:
  "aliasesWritable exampleStation
   \<and> fst (handleRequestChangeConfiguration
            \<lparr>cc_key = HeartBeatInterval, cc_value = ''30''\<rparr> exampleStation)
       = OCPP_CONFIGURATION_RESPONSE_ACCEPTED
   \<and> readBack (snd (handleRequestChangeConfiguration
            \<lparr>cc_key = HeartBeatInterval, cc_value = ''30''\<rparr> exampleStation))
        HeartBeatInterval = Some ''30''
   \<and> readBack (snd (handleRequestChangeConfiguration
            \<lparr>cc_key = HeartBeatInterval, cc_value = ''30''\<rparr> exampleStation))
        HeartbeatInterval = Some ''30''
   \<and> heartbeatRestarts (snd (handleRequestChangeConfiguration
            \<lparr>cc_key = HeartBeatInterval, cc_value = ''30''\<rparr> exampleStation)) = 1
   \<and> fst (handleRequestGetConfiguration (Some [HeartbeatInterval])
            (snd (handleRequestChangeConfiguration
                    \<lparr>cc_key = HeartBeatInterval, cc_value = ''30''\<rparr> exampleStation)))
       = \<lparr>response_configurationKey = [(HeartbeatInterval, False, ''30'')],
          response_unknownKey = []\<rparr>"
proof -
  let ?q = "\<lparr>cc_key = HeartBeatInterval, cc_value = ''30''\<rparr>"
  have wf: "aliasesWritable exampleStation"
    by code_simp
  have ps: "\<forall>q \<in> set ([]::ChangeConfigurationRequest list).
              cc_key q = HeartBeatInterval \<or> cc_key q = HeartbeatInterval"
    by simp
  have q: "cc_key ?q = HeartBeatInterval \<or> cc_key ?q = HeartbeatInterval"
    by simp
  have nil: "changeConfigurations [] exampleStation = exampleStation"
    by (simp add: changeConfigurations_def)
  have first: "getConfigurationKey exampleStation (cc_key ?q) True
                 = Some (writable ''HeartBeatInterval'' ''60'')"
    by code_simp
  have sibling: "getConfigurationKey exampleStation HeartbeatInterval False
                   = Some (writable ''HeartbeatInterval'' ''60'')"
    by code_simp
  have hr: "heartbeatRestarts exampleStation = 0"
    by (simp add: exampleStation_def)
  obtain response cs' where r: "handleRequestChangeConfiguration ?q exampleStation = (response, cs')"
    by (cases "handleRequestChangeConfiguration ?q exampleStation")
  from heartbeat_aliases_kept_synchronised[OF wf ps q, unfolded nil first]
  have "response = OCPP_CONFIGURATION_RESPONSE_ACCEPTED \<and>
        readBack cs' HeartBeatInterval = Some ''30'' \<and>
        readBack cs' HeartbeatInterval = Some ''30'' \<and>
        heartbeatRestarts cs' = Suc 0 \<and>
        fst (handleRequestGetConfiguration (Some [HeartbeatInterval]) cs')
          = \<lparr>response_configurationKey = [(HeartbeatInterval, False, ''30'')],
             response_unknownKey = []\<rparr>"
    using sibling by (simp add: r hr writable_def)
  with wf show ?thesis
    by (simp add: r)
qed

section \<open>Facts about the connector map\<close>

lemma lookups_ignore_requests:
  "getConnectorStatus (cs\<lparr>requests := r\<rparr>) k = getConnectorStatus cs k"
  "getEnergyActiveImportRegisterByTransactionId (cs\<lparr>requests := r\<rparr>) tid
     = getEnergyActiveImportRegisterByTransactionId cs tid"
  "getTransactionIdTag (cs\<lparr>requests := r\<rparr>) tid = getTransactionIdTag cs tid"
  by (simp_all add: getConnectorStatus_def getEnergyActiveImportRegisterByTransactionId_def
      getTransactionIdTag_def transactionConnector_def)

lemma getConnectorStatus_updateConnector:
  "getConnectorStatus (updateConnector k f cs) k'
     = (if k' = k then map_option f (getConnectorStatus cs k) else getConnectorStatus cs k')"
  by (auto simp: getConnectorStatus_def updateConnector_def map_of_map_entry
      split: option.splits)

lemma getConnectorStatus_requests:
  "getConnectorStatus (cs\<lparr>requests := r\<rparr>) k = getConnectorStatus cs k"
  by (simp add: getConnectorStatus_def)

lemma remoteStart_connector0:
  "handleRequestRemoteStartTransaction centralSystem
       \<lparr>rst_connectorId = Some 0, rst_idTag = idTag, rst_chargingProfile = cp\<rparr> cs
     = notifyRemoteStartTransactionRejected centralSystem (Some 0) idTag cs"
  by (simp add: handleRequestRemoteStartTransaction_def)

lemma notifyConnectors_all:
  "\<forall>(k, c) \<in> set ys. getConnectorStatus cs k = Some c \<Longrightarrow>
     notifyConnectors centralSystem (map fst ys) cs
       = (Inr (), cs\<lparr>requests := requests cs
                    @ map (\<lambda>(k, c). STATUS_NOTIFICATION k (status c) NO_ERROR) ys\<rparr>)"
proof (induction ys arbitrary: cs)
  case Nil
  then show ?case by simp
next
  case (Cons y ys)
  obtain k c where y: "y = (k, c)"
    by (cases y)
  let ?cs = "cs\<lparr>requests := requests cs @ [STATUS_NOTIFICATION k (status c) NO_ERROR]\<rparr>"
  from Cons.prems have "\<forall>(k, c) \<in> set ys. getConnectorStatus ?cs k = Some c"
    by (simp add: getConnectorStatus_requests)
  from Cons.IH[OF this] Cons.prems show ?case
    by (simp add: y requestHandler_def)
qed

lemma getConnectorStatus_entries:
  "distinct (map fst (connectors cs)) \<Longrightarrow>
     \<forall>(k, c) \<in> set (connectors cs). getConnectorStatus cs k = Some c"
  by (auto simp: getConnectorStatus_def)

lemma find_key_entry:
  "\<forall>(k, c) \<in> set ys. m k = Some c \<Longrightarrow>
     find (\<lambda>k. P k \<and> (case m k of None \<Rightarrow> False | Some c \<Rightarrow> Q c)) (map fst ys)
       = map_option fst (find (\<lambda>(k, c). P k \<and> Q c) ys)"
  by (induction ys) auto

lemma transactionConnector_key:
  assumes "distinct (map fst (connectors cs))"
  shows "find (\<lambda>connectorId. connectorId > 0 \<and>
                 (case getConnectorStatus cs connectorId of
                    None \<Rightarrow> False
                  | Some c \<Rightarrow> transactionId c = tid))
           (map fst (connectors cs))
         = map_option fst (transactionConnector cs tid)"
  unfolding transactionConnector_def
  by (rule find_key_entry) (use assms in \<open>auto simp: getConnectorStatus_def\<close>)

lemma find_map_entry_observed:
  "(\<And>a b. P (a, f b) = P (a, b)) \<Longrightarrow> (\<And>a b. h (a, f b) = h (a, b)) \<Longrightarrow>
     map_option h (find P (AList.map_entry k f xs)) = map_option h (find P xs)"
  by (induction xs) auto

lemma register_after_status:
  "getEnergyActiveImportRegisterByTransactionId
       (updateConnector k (\<lambda>c. c\<lparr>status := s\<rparr>) cs) tid
     = getEnergyActiveImportRegisterByTransactionId cs tid"
  unfolding getEnergyActiveImportRegisterByTransactionId_def transactionConnector_def
    updateConnector_def
  by (simp add: find_map_entry_observed)

lemma idTag_after_status:
  "getTransactionIdTag (updateConnector k (\<lambda>c. c\<lparr>status := s\<rparr>) cs) tid
     = getTransactionIdTag cs tid"
proof -
  have "map_option (\<lambda>(k, c). transactionIdTag c)
          (find (\<lambda>(k, c). 0 < k \<and> transactionId c = tid)
             (AList.map_entry k (\<lambda>c. c\<lparr>status := s\<rparr>) (connectors cs)))
        = map_option (\<lambda>(k, c). transactionIdTag c)
            (find (\<lambda>(k, c). 0 < k \<and> transactionId c = tid) (connectors cs))"
    by (rule find_map_entry_observed) auto
  then show ?thesis
    unfolding getTransactionIdTag_def transactionConnector_def updateConnector_def
    by (auto split: option.splits)
qed

lemma find_SomeD: "find P xs = Some x \<Longrightarrow> x \<in> set xs \<and> P x"
  by (induction xs) (auto split: if_splits)

lemma transactionConnector_found:
  "transactionConnector cs tid = Some (k, c) \<Longrightarrow>
     (k, c) \<in> set (connectors cs) \<and> 0 < k \<and> transactionId c = tid"
  unfolding transactionConnector_def by (drule find_SomeD) simp

lemma transactionConnector_none:
  "(transactionConnector cs tid = None)
     = (\<not> (\<exists>(k, c) \<in> set (connectors cs). 0 < k \<and> transactionId c = tid))"
  by (auto simp: transactionConnector_def find_None_iff)

lemma remoteStop_found:
  assumes keys: "distinct (map fst (connectors cs))"
    and found: "transactionConnector cs (Some tid) = Some (k, c)"
  shows "handleRequestRemoteStopTransaction centralSystem tid cs
           = (Inr OCPP_RESPONSE_ACCEPTED,
              updateConnector k (\<lambda>c. c\<lparr>status := FINISHING\<rparr>)
                (cs\<lparr>requests := requests cs
                   @ [STATUS_NOTIFICATION k FINISHING NO_ERROR]
                   @ (if beginEndMeterValues cs \<and> ocppStrictCompliance cs \<and>
                         \<not> outOfOrderEndMeterValues cs
                      then [METER_VALUES k (Some tid)
                              (Some (transactionEnergyActiveImportRegister c))]
                      else [])
                   @ [STOP_TRANSACTION (Some tid)
                        (Some (transactionEnergyActiveImportRegister c))
                        (transactionIdTag c) None]\<rparr>))"
proof -
  have key: "find (\<lambda>connectorId. connectorId > 0 \<and>
                 (case getConnectorStatus cs connectorId of
                    None \<Rightarrow> False
                  | Some c \<Rightarrow> transactionId c = Some tid))
               (map fst (connectors cs)) = Some k"
    using transactionConnector_key[OF keys, of "Some tid"] found by simp
  have reg: "getEnergyActiveImportRegisterByTransactionId cs (Some tid)
               = Some (transactionEnergyActiveImportRegister c)"
    using found by (simp add: getEnergyActiveImportRegisterByTransactionId_def)
  have tag: "getTransactionIdTag cs (Some tid) = transactionIdTag c"
    using found by (simp add: getTransactionIdTag_def)
  have flags: "beginEndMeterValues (updateConnector k f cs') = beginEndMeterValues cs'"
    "ocppStrictCompliance (updateConnector k f cs') = ocppStrictCompliance cs'"
    "outOfOrderEndMeterValues (updateConnector k f cs') = outOfOrderEndMeterValues cs'"
    "requests (updateConnector k f cs') = requests cs'" for f cs'
    by (simp_all add: updateConnector_def)
  have upd: "(updateConnector k f cs')\<lparr>requests := r\<rparr> = updateConnector k f (cs'\<lparr>requests := r\<rparr>)"
    for f cs' r
    by (simp add: updateConnector_def)
  show ?thesis
    by (simp add: handleRequestRemoteStopTransaction_def key Let_def requestHandler_def
        register_after_status idTag_after_status lookups_ignore_requests reg tag flags upd)
qed

section \<open>ClearChargingProfile without a connector id\<close>

text \<open>
  Claim C2 is about ClearChargingProfile with SmartCharging enabled and no connector
  id: every stored profile that matches is cleared on every connector, and the response
  is Accepted when one was cleared.  The handler first looks up the connector the
  request names and answers Unknown when there is none, which is the case for a
  request without connector id: the loop over all connectors is not reached.  A request
  that reaches the loop names connector 0, and then every clearing write goes to the
  profile array of connector 0, whichever connector the matching profile is on.
\<close>

lemma clearChargingProfile_absent_connectorId_unknown:
  "ccp_connectorId commandPayload = None \<Longrightarrow>
     handleRequestClearChargingProfile commandPayload cs
       = (Inr OCPP_CLEAR_CHARGING_PROFILE_RESPONSE_UNKNOWN, cs)"
  by (simp add: handleRequestClearChargingProfile_def)

text \<open>
  Claim C2 at its own scenario: connectors 1 and 2 each hold a profile with id 7 and
  SmartCharging is enabled.  ClearChargingProfile(id = 7) without connector id returns
  Unknown and leaves the station as it was.  With connector id 0 the response is
  Accepted, an empty profile is written to connector 0, and connectors 1 and 2 keep
  their profiles.
\<close>

theorem clearChargingProfile_without_connectorId:
  "checkFeatureProfile profileStation SmartCharging
   \<and> map (\<lambda>(k, c). (k, chargingProfiles c)) (connectors profileStation)
       = [(0, Some []), (1, Some [Some profile7]), (2, Some [Some profile7])]
   \<and> handleRequestClearChargingProfile (clearProfile7 None) profileStation
       = (Inr OCPP_CLEAR_CHARGING_PROFILE_RESPONSE_UNKNOWN, profileStation)
   \<and> fst (handleRequestClearChargingProfile (clearProfile7 (Some 0)) profileStation)
       = Inr OCPP_CLEAR_CHARGING_PROFILE_RESPONSE_ACCEPTED
   \<and> map (\<lambda>(k, c). (k, chargingProfiles c))
        (connectors (snd (handleRequestClearChargingProfile (clearProfile7 (Some 0))
           profileStation)))
       = [(0, Some [Some emptyProfile]), (1, Some [Some profile7]), (2, Some [Some profile7])]"
  by code_simp

section \<open>UnlockConnector\<close>

text \<open>
  Claim C5 at a connector id that names no connector of the station.  No transaction is
  running there, so the claim has a StatusNotification(Available, NoError) emitted and
  the response Unlocked.  The handler emits the notification and then assigns to the
  status of the missing connector object, which throws: there is no response.
\<close>

theorem unlockConnector_unknown_connector:
  "getConnectorStatus exampleStation 5 = None
   \<and> handleRequestUnlockConnector acceptAll 5 exampleStation
       = (Inl TypeError,
          exampleStation\<lparr>requests := [STATUS_NOTIFICATION 5 AVAILABLE NO_ERROR]\<rparr>)"
  by code_simp

text \<open>
  UnlockConnector on connector 0 and on a connector of the station.  Connector id 0 is
  answered NotSupported and nothing changes.  With a transaction running on the
  connector, a StopTransaction with reason UnlockCommand is emitted for the connector's
  transaction id (after the transaction-end MeterValues where those are enabled), and
  the response is Unlocked if and only if the central system accepts the stop, else
  UnlockFailed.  Without a running transaction, StatusNotification(Available, NoError)
  is emitted, the connector's status becomes Available and the response is Unlocked.
\<close>

theorem unlockConnector_known_connector:
  "handleRequestUnlockConnector centralSystem 0 cs = (Inr OCPP_RESPONSE_UNLOCK_NOT_SUPPORTED, cs)
   \<and> (connectorId \<noteq> 0 \<and> getConnectorStatus cs connectorId = Some c \<and> transactionStarted c \<longrightarrow>
        handleRequestUnlockConnector centralSystem connectorId cs
          = (Inr (if idTagInfo (centralSystem
                       (STOP_TRANSACTION (transactionId c)
                          (getEnergyActiveImportRegisterByTransactionId cs (transactionId c))
                          (getTransactionIdTag cs (transactionId c)) (Some UNLOCK_COMMAND)))
                     = Some ACCEPTED
                  then OCPP_RESPONSE_UNLOCKED else OCPP_RESPONSE_UNLOCK_FAILED),
             cs\<lparr>requests := requests cs
                  @ (if beginEndMeterValues cs \<and> ocppStrictCompliance cs \<and>
                        \<not> outOfOrderEndMeterValues cs
                     then [METER_VALUES connectorId (transactionId c)
                             (getEnergyActiveImportRegisterByTransactionId cs (transactionId c))]
                     else [])
                  @ [STOP_TRANSACTION (transactionId c)
                       (getEnergyActiveImportRegisterByTransactionId cs (transactionId c))
                       (getTransactionIdTag cs (transactionId c)) (Some UNLOCK_COMMAND)]\<rparr>))
   \<and> (connectorId \<noteq> 0 \<and> getConnectorStatus cs connectorId = Some c \<and> \<not> transactionStarted c \<longrightarrow>
        handleRequestUnlockConnector centralSystem connectorId cs
          = (Inr OCPP_RESPONSE_UNLOCKED,
             (updateConnector connectorId (\<lambda>c. c\<lparr>status := AVAILABLE\<rparr>) cs)
               \<lparr>requests := requests cs @ [STATUS_NOTIFICATION connectorId AVAILABLE NO_ERROR]\<rparr>))"
  by (simp add: handleRequestUnlockConnector_def Let_def requestHandler_def
      lookups_ignore_requests updateConnector_def)

text \<open>
  The theorem on the station with running transactions: connector 1 has transaction 41,
  connector 3 is idle.
\<close>

theorem unlockConnector_known_connector_witness:
  "handleRequestUnlockConnector acceptAll 1 chargingStation
     = (Inr OCPP_RESPONSE_UNLOCKED,
        chargingStation\<lparr>requests :=
          [STOP_TRANSACTION (Some 41) (Some 1500) (Some ''TAG-A'') (Some UNLOCK_COMMAND)]\<rparr>)
   \<and> handleRequestUnlockConnector acceptAll 3 chargingStation
     = (Inr OCPP_RESPONSE_UNLOCKED,
        (updateConnector 3 (\<lambda>c. c\<lparr>status := AVAILABLE\<rparr>) chargingStation)
          \<lparr>requests := [STATUS_NOTIFICATION 3 AVAILABLE NO_ERROR]\<rparr>)"
proof -
  have c1: "(1::int) \<noteq> 0 \<and>
            getConnectorStatus chargingStation 1 = Some (chargingConnector 41 ''TAG-A'' 1500) \<and>
            transactionStarted (chargingConnector 41 ''TAG-A'' 1500)"
    by code_simp
  have c3: "(3::int) \<noteq> 0 \<and> getConnectorStatus chargingStation 3 = Some idleConnector \<and>
            \<not> transactionStarted idleConnector"
    by code_simp
  have l: "transactionId (chargingConnector 41 ''TAG-A'' 1500) = Some 41"
    "getEnergyActiveImportRegisterByTransactionId chargingStation (Some 41) = Some 1500"
    "getTransactionIdTag chargingStation (Some 41) = Some ''TAG-A''"
    "\<not> beginEndMeterValues chargingStation" "requests chargingStation = []"
    by code_simp+
  from unlockConnector_known_connector
         [of acceptAll chargingStation 1 "chargingConnector 41 ''TAG-A'' 1500"] c1
  have a: "handleRequestUnlockConnector acceptAll 1 chargingStation
     = (Inr OCPP_RESPONSE_UNLOCKED,
        chargingStation\<lparr>requests :=
          [STOP_TRANSACTION (Some 41) (Some 1500) (Some ''TAG-A'') (Some UNLOCK_COMMAND)]\<rparr>)"
    by (simp add: l acceptAll_def)
  from unlockConnector_known_connector[of acceptAll chargingStation 3 idleConnector] c3
  have b: "handleRequestUnlockConnector acceptAll 3 chargingStation
     = (Inr OCPP_RESPONSE_UNLOCKED,
        (updateConnector 3 (\<lambda>c. c\<lparr>status := AVAILABLE\<rparr>) chargingStation)
          \<lparr>requests := [STATUS_NOTIFICATION 3 AVAILABLE NO_ERROR]\<rparr>)"
    by (simp add: l)
  from a b show ?thesis
    by (rule conjI)
qed

section \<open>RemoteStartTransaction on connector 0\<close>

text \<open>
  Claim C9.  On a station that has the station-level connector 0, a
  RemoteStartTransaction request with connector id 0 is answered Rejected.  The only
  request it may emit is StatusNotification(0, Available, NoError), and only when
  connector 0 was not Available: no StatusNotification(Preparing), no Authorize and no
  StartTransaction is emitted.  No connector is set to Preparing: a connector that is
  Preparing afterwards was so before, unchanged.
\<close>

theorem remoteStart_connector0_rejected:
  assumes c0: "getConnectorStatus cs 0 = Some c0"
  shows
    "(case handleRequestRemoteStartTransaction centralSystem
             \<lparr>rst_connectorId = Some 0, rst_idTag = idTag, rst_chargingProfile = cp\<rparr> cs of
        (response, cs') \<Rightarrow>
          response = Inr OCPP_RESPONSE_REJECTED \<and>
          cs' = (if status c0 = AVAILABLE then cs
                 else updateConnector 0 (\<lambda>c. c\<lparr>status := AVAILABLE\<rparr>)
                        (cs\<lparr>requests := requests cs @ [STATUS_NOTIFICATION 0 AVAILABLE NO_ERROR]\<rparr>)) \<and>
          (\<exists>sent. requests cs' = requests cs @ sent \<and>
                  (\<forall>r \<in> set sent. r = STATUS_NOTIFICATION 0 AVAILABLE NO_ERROR)) \<and>
          (\<forall>k c'. getConnectorStatus cs' k = Some c' \<and> status c' = PREPARING \<longrightarrow>
                   getConnectorStatus cs k = Some c'))"
proof (cases "status c0 = AVAILABLE")
  case True
  with c0 show ?thesis
    by (simp add: remoteStart_connector0 notifyRemoteStartTransactionRejected_def)
next
  case False
  let ?cs' = "updateConnector 0 (\<lambda>c. c\<lparr>status := AVAILABLE\<rparr>)
                (cs\<lparr>requests := requests cs @ [STATUS_NOTIFICATION 0 AVAILABLE NO_ERROR]\<rparr>)"
  have run: "handleRequestRemoteStartTransaction centralSystem
               \<lparr>rst_connectorId = Some 0, rst_idTag = idTag, rst_chargingProfile = cp\<rparr> cs
             = (Inr OCPP_RESPONSE_REJECTED, ?cs')"
    using c0 False
    by (simp add: remoteStart_connector0 notifyRemoteStartTransactionRejected_def
        requestHandler_def)
  have sent: "requests ?cs' = requests cs @ [STATUS_NOTIFICATION 0 AVAILABLE NO_ERROR]"
    by (simp add: updateConnector_def)
  have prep: "getConnectorStatus cs k = Some c'"
    if "getConnectorStatus ?cs' k = Some c'" "status c' = PREPARING" for k c'
    using that c0
    by (auto simp: getConnectorStatus_updateConnector getConnectorStatus_requests
        split: if_splits)
  from False sent prep show ?thesis
    unfolding run by auto
qed

text \<open>
  The theorem on the example station, whose connector 0 is Available, and on the same
  station with connector 0 Unavailable.
\<close>

theorem remoteStart_connector0_rejected_witness:
  "handleRequestRemoteStartTransaction acceptAll
       \<lparr>rst_connectorId = Some 0, rst_idTag = ''TAG-A'', rst_chargingProfile = None\<rparr>
       exampleStation
     = (Inr OCPP_RESPONSE_REJECTED, exampleStation)
   \<and> fst (handleRequestRemoteStartTransaction acceptAll
       \<lparr>rst_connectorId = Some 0, rst_idTag = ''TAG-A'', rst_chargingProfile = None\<rparr>
       (updateConnector 0 (\<lambda>c. c\<lparr>status := UNAVAILABLE\<rparr>) exampleStation))
     = Inr OCPP_RESPONSE_REJECTED
   \<and> requests (snd (handleRequestRemoteStartTransaction acceptAll
       \<lparr>rst_connectorId = Some 0, rst_idTag = ''TAG-A'', rst_chargingProfile = None\<rparr>
       (updateConnector 0 (\<lambda>c. c\<lparr>status := UNAVAILABLE\<rparr>) exampleStation)))
     = [STATUS_NOTIFICATION 0 AVAILABLE NO_ERROR]"
proof -
  let ?u = "updateConnector 0 (\<lambda>c. c\<lparr>status := UNAVAILABLE\<rparr>) exampleStation"
  have c0: "getConnectorStatus exampleStation 0 = Some idleConnector"
    by code_simp
  have st: "status idleConnector = AVAILABLE"
    by (simp add: idleConnector_def)
  have u0: "getConnectorStatus ?u 0 = Some (idleConnector\<lparr>status := UNAVAILABLE\<rparr>)"
    by code_simp
  have r: "requests exampleStation = []"
    by (simp add: exampleStation_def)
  from remoteStart_connector0_rejected[OF c0, of acceptAll "''TAG-A''" None] st
  have a: "handleRequestRemoteStartTransaction acceptAll
       \<lparr>rst_connectorId = Some 0, rst_idTag = ''TAG-A'', rst_chargingProfile = None\<rparr>
       exampleStation
     = (Inr OCPP_RESPONSE_REJECTED, exampleStation)"
    by (simp split: prod.splits)
  obtain response cs' where h: "handleRequestRemoteStartTransaction acceptAll
       \<lparr>rst_connectorId = Some 0, rst_idTag = ''TAG-A'', rst_chargingProfile = None\<rparr> ?u
     = (response, cs')"
    by (cases "handleRequestRemoteStartTransaction acceptAll
       \<lparr>rst_connectorId = Some 0, rst_idTag = ''TAG-A'', rst_chargingProfile = None\<rparr> ?u")
  note t = remoteStart_connector0_rejected
             [OF u0, of acceptAll "''TAG-A''" None, unfolded h split_conv]
  from t[THEN conjunct2, THEN conjunct1]
  have rq: "requests cs' = [STATUS_NOTIFICATION 0 AVAILABLE NO_ERROR]"
    by (simp add: r updateConnector_def)
  from t[THEN conjunct1] rq
  have b: "fst (handleRequestRemoteStartTransaction acceptAll
       \<lparr>rst_connectorId = Some 0, rst_idTag = ''TAG-A'', rst_chargingProfile = None\<rparr> ?u)
     = Inr OCPP_RESPONSE_REJECTED
   \<and> requests (snd (handleRequestRemoteStartTransaction acceptAll
       \<lparr>rst_connectorId = Some 0, rst_idTag = ''TAG-A'', rst_chargingProfile = None\<rparr> ?u))
     = [STATUS_NOTIFICATION 0 AVAILABLE NO_ERROR]"
    unfolding h by simp
  from a b show ?thesis
    by simp
qed

section \<open>TriggerMessage for StatusNotification\<close>

text \<open>
  Claim C10.  With RemoteTrigger enabled, a TriggerMessage request for
  StatusNotification with connector id 0 is answered Accepted and registers a callback,
  as the request without connector id does.  On every station the callback of the
  request with connector id 0 does exactly what the callback of the request without
  connector id does: it sends one StatusNotification per connector of the map, each
  with that connector's status at the time the callback runs.
\<close>

theorem triggerMessage_statusNotification_connector0:
  assumes enabled: "checkFeatureProfile cs RemoteTrigger"
  shows
    "handleRequestTriggerMessage
        \<lparr>tm_requestedMessage = StatusNotification, tm_connectorId = Some 0\<rparr> cs
       = (OCPP_TRIGGER_MESSAGE_RESPONSE_ACCEPTED,
          setTimeout (TriggerStatusNotification (Some 0)) cs)
     \<and> handleRequestTriggerMessage
        \<lparr>tm_requestedMessage = StatusNotification, tm_connectorId = None\<rparr> cs
       = (OCPP_TRIGGER_MESSAGE_RESPONSE_ACCEPTED,
          setTimeout (TriggerStatusNotification None) cs)
     \<and> (\<forall>centralSystem cs'.
          runTriggerCallback centralSystem (TriggerStatusNotification (Some 0)) cs'
            = runTriggerCallback centralSystem (TriggerStatusNotification None) cs')
     \<and> (\<forall>centralSystem cs'.
          distinct (map fst (connectors cs')) \<longrightarrow>
          runTriggerCallback centralSystem (TriggerStatusNotification (Some 0)) cs'
            = (Inr (),
               cs'\<lparr>requests := requests cs'
                    @ map (\<lambda>(k, c). STATUS_NOTIFICATION k (status c) NO_ERROR)
                        (connectors cs')\<rparr>))"
proof (intro conjI allI impI)
  show "handleRequestTriggerMessage
          \<lparr>tm_requestedMessage = StatusNotification, tm_connectorId = Some 0\<rparr> cs
        = (OCPP_TRIGGER_MESSAGE_RESPONSE_ACCEPTED,
           setTimeout (TriggerStatusNotification (Some 0)) cs)"
    using enabled by (simp add: handleRequestTriggerMessage_def)
  show "handleRequestTriggerMessage
          \<lparr>tm_requestedMessage = StatusNotification, tm_connectorId = None\<rparr> cs
        = (OCPP_TRIGGER_MESSAGE_RESPONSE_ACCEPTED,
           setTimeout (TriggerStatusNotification None) cs)"
    using enabled by (simp add: handleRequestTriggerMessage_def)
next
  fix centralSystem cs'
  show "runTriggerCallback centralSystem (TriggerStatusNotification (Some 0)) cs'
          = runTriggerCallback centralSystem (TriggerStatusNotification None) cs'"
    by simp
next
  fix centralSystem and cs' :: ChargingStation
  assume "distinct (map fst (connectors cs'))"
  then show "runTriggerCallback centralSystem (TriggerStatusNotification (Some 0)) cs'
          = (Inr (),
             cs'\<lparr>requests := requests cs'
                  @ map (\<lambda>(k, c). STATUS_NOTIFICATION k (status c) NO_ERROR)
                      (connectors cs')\<rparr>)"
    by (simp add: notifyConnectors_all[OF getConnectorStatus_entries])
qed

text \<open>
  The theorem on the example station; the callback is run on the station with
  running transactions.
\<close>

theorem triggerMessage_statusNotification_connector0_witness:
  "handleRequestTriggerMessage
      \<lparr>tm_requestedMessage = StatusNotification, tm_connectorId = Some 0\<rparr> exampleStation
     = (OCPP_TRIGGER_MESSAGE_RESPONSE_ACCEPTED,
        exampleStation\<lparr>timeouts := [TriggerStatusNotification (Some 0)]\<rparr>)
   \<and> runTriggerCallback acceptAll (TriggerStatusNotification (Some 0)) chargingStation
     = (Inr (),
        chargingStation\<lparr>requests :=
          [STATUS_NOTIFICATION 0 AVAILABLE NO_ERROR, STATUS_NOTIFICATION 1 CHARGING NO_ERROR,
           STATUS_NOTIFICATION 2 CHARGING NO_ERROR, STATUS_NOTIFICATION 3 AVAILABLE NO_ERROR]\<rparr>)"
proof -
  have enabled: "checkFeatureProfile exampleStation RemoteTrigger"
    by code_simp
  have d: "distinct (map fst (connectors chargingStation))"
    by code_simp
  have t: "setTimeout (TriggerStatusNotification (Some 0)) exampleStation
             = exampleStation\<lparr>timeouts := [TriggerStatusNotification (Some 0)]\<rparr>"
    by (simp add: setTimeout_def exampleStation_def)
  have m: "requests chargingStation
              @ map (\<lambda>(k, c). STATUS_NOTIFICATION k (status c) NO_ERROR)
                  (connectors chargingStation)
           = [STATUS_NOTIFICATION 0 AVAILABLE NO_ERROR, STATUS_NOTIFICATION 1 CHARGING NO_ERROR,
              STATUS_NOTIFICATION 2 CHARGING NO_ERROR, STATUS_NOTIFICATION 3 AVAILABLE NO_ERROR]"
    by code_simp
  from triggerMessage_statusNotification_connector0[OF enabled] d
  show ?thesis
    by (simp add: t m)
qed

section \<open>RemoteStopTransaction\<close>

text \<open>
  Claim C6.  For every RemoteStopTransaction(transactionId) on a station whose
  connector map has one entry per key: if some connector with an id above 0 has that
  transaction id, then for one such connector the handler sets the status to Finishing,
  emits StatusNotification(Finishing), the transaction-end MeterValues where those are
  enabled, and a StopTransaction with that transaction id, the connector's energy
  register as meterStop and the transaction's idTag, and returns Accepted.  If no
  connector matches, the handler returns Rejected and the station is unchanged, so no
  StopTransaction is emitted.
\<close>

theorem remoteStop_transaction:
  assumes keys: "distinct (map fst (connectors cs))"
  shows
    "((\<exists>(k, c) \<in> set (connectors cs). 0 < k \<and> transactionId c = Some tid) \<longrightarrow>
        (\<exists>k c. (k, c) \<in> set (connectors cs) \<and> 0 < k \<and> transactionId c = Some tid \<and>
           (case handleRequestRemoteStopTransaction centralSystem tid cs of
              (response, cs') \<Rightarrow>
                response = Inr OCPP_RESPONSE_ACCEPTED \<and>
                connectors cs'
                  = AList.map_entry k (\<lambda>c. c\<lparr>status := FINISHING\<rparr>) (connectors cs) \<and>
                getConnectorStatus cs' k = Some (c\<lparr>status := FINISHING\<rparr>) \<and>
                requests cs' = requests cs
                  @ [STATUS_NOTIFICATION k FINISHING NO_ERROR]
                  @ (if beginEndMeterValues cs \<and> ocppStrictCompliance cs \<and>
                        \<not> outOfOrderEndMeterValues cs
                     then [METER_VALUES k (Some tid)
                             (Some (transactionEnergyActiveImportRegister c))]
                     else [])
                  @ [STOP_TRANSACTION (Some tid)
                       (Some (transactionEnergyActiveImportRegister c))
                       (transactionIdTag c) None])))
     \<and> (\<not> (\<exists>(k, c) \<in> set (connectors cs). 0 < k \<and> transactionId c = Some tid) \<longrightarrow>
          handleRequestRemoteStopTransaction centralSystem tid cs
            = (Inr OCPP_RESPONSE_REJECTED, cs))"
proof (intro conjI impI)
  assume "\<exists>(k, c) \<in> set (connectors cs). 0 < k \<and> transactionId c = Some tid"
  then have "transactionConnector cs (Some tid) \<noteq> None"
    by (simp add: transactionConnector_none)
  then obtain k c where found: "transactionConnector cs (Some tid) = Some (k, c)"
    by auto
  from transactionConnector_found[OF found]
  have mem: "(k, c) \<in> set (connectors cs)" and pos: "0 < k" and t: "transactionId c = Some tid"
    by auto
  from mem keys have look: "getConnectorStatus cs k = Some c"
    by (simp add: getConnectorStatus_def)
  have "getConnectorStatus
          (updateConnector k (\<lambda>c. c\<lparr>status := FINISHING\<rparr>) (cs\<lparr>requests := r\<rparr>)) k
        = Some (c\<lparr>status := FINISHING\<rparr>)" for r
    by (simp add: getConnectorStatus_updateConnector getConnectorStatus_requests look)
  then have "case handleRequestRemoteStopTransaction centralSystem tid cs of
          (response, cs') \<Rightarrow>
            response = Inr OCPP_RESPONSE_ACCEPTED \<and>
            connectors cs'
              = AList.map_entry k (\<lambda>c. c\<lparr>status := FINISHING\<rparr>) (connectors cs) \<and>
            getConnectorStatus cs' k = Some (c\<lparr>status := FINISHING\<rparr>) \<and>
            requests cs' = requests cs
              @ [STATUS_NOTIFICATION k FINISHING NO_ERROR]
              @ (if beginEndMeterValues cs \<and> ocppStrictCompliance cs \<and>
                    \<not> outOfOrderEndMeterValues cs
                 then [METER_VALUES k (Some tid)
                         (Some (transactionEnergyActiveImportRegister c))]
                 else [])
              @ [STOP_TRANSACTION (Some tid)
                   (Some (transactionEnergyActiveImportRegister c))
                   (transactionIdTag c) None]"
    unfolding remoteStop_found[OF keys found]
    by (simp add: updateConnector_def)
  with mem pos t
  show "\<exists>k c. (k, c) \<in> set (connectors cs) \<and> 0 < k \<and> transactionId c = Some tid \<and>
           (case handleRequestRemoteStopTransaction centralSystem tid cs of
              (response, cs') \<Rightarrow>
                response = Inr OCPP_RESPONSE_ACCEPTED \<and>
                connectors cs'
                  = AList.map_entry k (\<lambda>c. c\<lparr>status := FINISHING\<rparr>) (connectors cs) \<and>
                getConnectorStatus cs' k = Some (c\<lparr>status := FINISHING\<rparr>) \<and>
                requests cs' = requests cs
                  @ [STATUS_NOTIFICATION k FINISHING NO_ERROR]
                  @ (if beginEndMeterValues cs \<and> ocppStrictCompliance cs \<and>
                        \<not> outOfOrderEndMeterValues cs
                     then [METER_VALUES k (Some tid)
                             (Some (transactionEnergyActiveImportRegister c))]
                     else [])
                  @ [STOP_TRANSACTION (Some tid)
                       (Some (transactionEnergyActiveImportRegister c))
                       (transactionIdTag c) None])"
    by (intro exI conjI)
next
  assume "\<not> (\<exists>(k, c) \<in> set (connectors cs). 0 < k \<and> transactionId c = Some tid)"
  then have "transactionConnector cs (Some tid) = None"
    by (simp add: transactionConnector_none)
  with transactionConnector_key[OF keys, of "Some tid"]
  show "handleRequestRemoteStopTransaction centralSystem tid cs
          = (Inr OCPP_RESPONSE_REJECTED, cs)"
    by (simp add: handleRequestRemoteStopTransaction_def)
qed

text \<open>
  The theorem on the station with running transactions: transaction 42 is on connector
  2, transaction 99 on none.
\<close>

theorem remoteStop_transaction_witness:
  "fst (handleRequestRemoteStopTransaction acceptAll 42 chargingStation)
     = Inr OCPP_RESPONSE_ACCEPTED
   \<and> requests (snd (handleRequestRemoteStopTransaction acceptAll 42 chargingStation))
     = [STATUS_NOTIFICATION 2 FINISHING NO_ERROR,
        STOP_TRANSACTION (Some 42) (Some 2750) (Some ''TAG-B'') None]
   \<and> map_option status
        (getConnectorStatus (snd (handleRequestRemoteStopTransaction acceptAll 42 chargingStation)) 2)
     = Some FINISHING
   \<and> handleRequestRemoteStopTransaction acceptAll 99 chargingStation
     = (Inr OCPP_RESPONSE_REJECTED, chargingStation)"
proof -
  have keys: "distinct (map fst (connectors chargingStation))"
    by code_simp
  have some: "\<exists>(k, c) \<in> set (connectors chargingStation). 0 < k \<and> transactionId c = Some 42"
    by code_simp
  have none: "\<not> (\<exists>(k, c) \<in> set (connectors chargingStation). 0 < k \<and> transactionId c = Some 99)"
    by code_simp
  have only: "k = 2 \<and> c = chargingConnector 42 ''TAG-B'' 2750"
    if "(k, c) \<in> set (connectors chargingStation)" "transactionId c = Some 42" for k c
    using that
    by (auto simp: chargingStation_def exampleStation_def chargingConnector_def idleConnector_def)
  have flags: "\<not> beginEndMeterValues chargingStation" "requests chargingStation = []"
    by (simp_all add: chargingStation_def exampleStation_def)
  from remoteStop_transaction[OF keys, of 42 acceptAll] some
  have "\<exists>k c. (k, c) \<in> set (connectors chargingStation) \<and> 0 < k \<and>
          transactionId c = Some 42 \<and>
          (case handleRequestRemoteStopTransaction acceptAll 42 chargingStation of
          (response, cs') \<Rightarrow>
            response = Inr OCPP_RESPONSE_ACCEPTED \<and>
            connectors cs'
              = AList.map_entry k (\<lambda>c. c\<lparr>status := FINISHING\<rparr>) (connectors chargingStation) \<and>
            getConnectorStatus cs' k = Some (c\<lparr>status := FINISHING\<rparr>) \<and>
            requests cs' = requests chargingStation
              @ [STATUS_NOTIFICATION k FINISHING NO_ERROR]
              @ (if beginEndMeterValues chargingStation \<and> ocppStrictCompliance chargingStation \<and>
                    \<not> outOfOrderEndMeterValues chargingStation
                 then [METER_VALUES k (Some 42)
                         (Some (transactionEnergyActiveImportRegister c))]
                 else [])
              @ [STOP_TRANSACTION (Some 42)
                   (Some (transactionEnergyActiveImportRegister c))
                   (transactionIdTag c) None])"
    by (rule_tac mp) (erule conjunct1)
  then obtain k c where kc: "(k, c) \<in> set (connectors chargingStation)" "transactionId c = Some 42"
    and run: "case handleRequestRemoteStopTransaction acceptAll 42 chargingStation of
          (response, cs') \<Rightarrow>
            response = Inr OCPP_RESPONSE_ACCEPTED \<and>
            connectors cs'
              = AList.map_entry k (\<lambda>c. c\<lparr>status := FINISHING\<rparr>) (connectors chargingStation) \<and>
            getConnectorStatus cs' k = Some (c\<lparr>status := FINISHING\<rparr>) \<and>
            requests cs' = requests chargingStation
              @ [STATUS_NOTIFICATION k FINISHING NO_ERROR]
              @ (if beginEndMeterValues chargingStation \<and> ocppStrictCompliance chargingStation \<and>
                    \<not> outOfOrderEndMeterValues chargingStation
                 then [METER_VALUES k (Some 42)
                         (Some (transactionEnergyActiveImportRegister c))]
                 else [])
              @ [STOP_TRANSACTION (Some 42)
                   (Some (transactionEnergyActiveImportRegister c))
                   (transactionIdTag c) None]"
    by (elim exE conjE) (rule that)
  from only[OF kc] have k: "k = 2" and c: "c = chargingConnector 42 ''TAG-B'' 2750"
    by simp_all
  from run have accepted:
    "fst (handleRequestRemoteStopTransaction acceptAll 42 chargingStation)
       = Inr OCPP_RESPONSE_ACCEPTED
     \<and> requests (snd (handleRequestRemoteStopTransaction acceptAll 42 chargingStation))
       = [STATUS_NOTIFICATION 2 FINISHING NO_ERROR,
          STOP_TRANSACTION (Some 42) (Some 2750) (Some ''TAG-B'') None]
     \<and> map_option status
          (getConnectorStatus (snd (handleRequestRemoteStopTransaction acceptAll 42 chargingStation)) 2)
       = Some FINISHING"
    by (simp add: k c flags chargingConnector_def split: prod.splits)
  from remoteStop_transaction[OF keys, of 99 acceptAll] none
  have "handleRequestRemoteStopTransaction acceptAll 99 chargingStation
          = (Inr OCPP_RESPONSE_REJECTED, chargingStation)"
    by (rule_tac mp) (erule conjunct2)
  with accepted show ?thesis
    by simp
qed

section \<open>The automatic transaction generator stops every running transaction\<close>

lemma transactionConnector_requests:
  "transactionConnector (cs\<lparr>requests := r\<rparr>) tid = transactionConnector cs tid"
  by (simp add: transactionConnector_def)

lemma stopConnectors_idle:
  "getConnectorStatus cs k = Some c \<Longrightarrow> \<not> transactionStarted c \<Longrightarrow>
     stopConnectors centralSystem reason (k # ks) cs = stopConnectors centralSystem reason ks cs"
  by simp

lemma stopConnectors_started:
  assumes "getConnectorStatus cs k = Some c" and "transactionStarted c"
    and "transactionId c = Some tid" and "transactionConnector cs (Some tid) = Some (k, c)"
  shows "stopConnectors centralSystem reason (k # ks) cs
           = stopConnectors centralSystem reason ks
               (cs\<lparr>requests := requests cs
                    @ [STOP_TRANSACTION (Some tid)
                         (Some (transactionEnergyActiveImportRegister c))
                         (transactionIdTag c) (Some reason)]\<rparr>)"
  using assms
  by (simp add: sendStopTransaction_def requestHandler_def
      getEnergyActiveImportRegisterByTransactionId_def getTransactionIdTag_def)

lemma find_unique:
  assumes "x \<in> set xs" and "P x" and "\<And>y. y \<in> set xs \<Longrightarrow> P y \<Longrightarrow> y = x"
  shows "find P xs = Some x"
proof -
  from assms(1,2) have "find P xs \<noteq> None"
    by (auto simp: find_None_iff)
  then obtain y where y: "find P xs = Some y"
    by auto
  from find_SomeD[OF y] have "y \<in> set xs" "P y"
    by simp_all
  then have "y = x"
    by (rule assms(3))
  with y show ?thesis
    by simp
qed

lemma stopConnectors_all:
  assumes "\<forall>(k, c) \<in> set ys.
             getConnectorStatus cs k = Some c \<and>
             (transactionStarted c \<longrightarrow>
                transactionId c \<noteq> None \<and>
                transactionConnector cs (transactionId c) = Some (k, c))"
  shows "stopConnectors centralSystem reason (map fst ys) cs
           = (Inr (),
              cs\<lparr>requests := requests cs
                   @ map (\<lambda>(k, c). STOP_TRANSACTION (transactionId c)
                                     (Some (transactionEnergyActiveImportRegister c))
                                     (transactionIdTag c) (Some reason))
                       (filter (\<lambda>(k, c). transactionStarted c) ys)\<rparr>)"
  using assms
proof (induction ys arbitrary: cs)
  case Nil
  then show ?case by simp
next
  case (Cons y ys)
  obtain k c where y: "y = (k, c)"
    by (cases y)
  from Cons.prems have look: "getConnectorStatus cs k = Some c"
    by (simp add: y)
  have rest: "\<forall>(k, c) \<in> set ys.
             getConnectorStatus (cs\<lparr>requests := r\<rparr>) k = Some c \<and>
             (transactionStarted c \<longrightarrow>
                transactionId c \<noteq> None \<and>
                transactionConnector (cs\<lparr>requests := r\<rparr>) (transactionId c) = Some (k, c))" for r
    using Cons.prems by (simp add: getConnectorStatus_requests transactionConnector_requests)
  show ?case
  proof (cases "transactionStarted c")
    case False
    have "stopConnectors centralSystem reason (map fst (y # ys)) cs
            = stopConnectors centralSystem reason (map fst ys) cs"
      using stopConnectors_idle[OF look False] by (simp add: y)
    also have "\<dots> = (Inr (),
              cs\<lparr>requests := requests cs
                   @ map (\<lambda>(k, c). STOP_TRANSACTION (transactionId c)
                                     (Some (transactionEnergyActiveImportRegister c))
                                     (transactionIdTag c) (Some reason))
                       (filter (\<lambda>(k, c). transactionStarted c) ys)\<rparr>)"
      using rest[of "requests cs"] by (intro Cons.IH) simp
    finally show ?thesis
      using False by (simp add: y)
  next
    case True
    with Cons.prems have "transactionId c \<noteq> None"
      and conn': "transactionConnector cs (transactionId c) = Some (k, c)"
      by (simp_all add: y)
    then obtain tid where tid: "transactionId c = Some tid"
      by auto
    from conn' tid have conn: "transactionConnector cs (Some tid) = Some (k, c)"
      by simp
    let ?m = "STOP_TRANSACTION (Some tid) (Some (transactionEnergyActiveImportRegister c))
                (transactionIdTag c) (Some reason)"
    have "stopConnectors centralSystem reason (map fst (y # ys)) cs
            = stopConnectors centralSystem reason (map fst ys)
                (cs\<lparr>requests := requests cs @ [?m]\<rparr>)"
      using stopConnectors_started[OF look True tid conn] by (simp add: y)
    also have "\<dots> = (Inr (),
              (cs\<lparr>requests := requests cs @ [?m]\<rparr>)
                \<lparr>requests := requests (cs\<lparr>requests := requests cs @ [?m]\<rparr>)
                   @ map (\<lambda>(k, c). STOP_TRANSACTION (transactionId c)
                                     (Some (transactionEnergyActiveImportRegister c))
                                     (transactionIdTag c) (Some reason))
                       (filter (\<lambda>(k, c). transactionStarted c) ys)\<rparr>)"
      by (rule Cons.IH[OF rest])
    finally show ?thesis
      using True tid by (simp add: y)
  qed
qed

lemma wellFormed_lookups:
  assumes wf: "transactionsWellFormed cs"
  shows "\<forall>(k, c) \<in> set (connectors cs).
             getConnectorStatus cs k = Some c \<and>
             (transactionStarted c \<longrightarrow>
                transactionId c \<noteq> None \<and>
                transactionConnector cs (transactionId c) = Some (k, c))"
proof (clarify, intro conjI impI)
  fix k c
  assume mem: "(k, c) \<in> set (connectors cs)"
  from wf have keys: "distinct (map fst (connectors cs))"
    by (simp add: transactionsWellFormed_def)
  from mem keys show "getConnectorStatus cs k = Some c"
    by (simp add: getConnectorStatus_def)
  assume started: "transactionStarted c"
  from wf have all: "\<forall>(k, c) \<in> set (connectors cs).
         transactionStarted c \<longrightarrow>
           0 < k \<and> transactionId c \<noteq> None \<and>
           (\<forall>(k', c') \<in> set (connectors cs).
              0 < k' \<and> transactionId c' = transactionId c \<longrightarrow> k' = k)"
    by (simp add: transactionsWellFormed_def)
  from bspec[OF all mem] started
  have pos: "0 < k" and tid: "transactionId c \<noteq> None"
    and others: "\<forall>(k', c') \<in> set (connectors cs).
                   0 < k' \<and> transactionId c' = transactionId c \<longrightarrow> k' = k"
    by simp_all
  from tid show "transactionId c \<noteq> None" .
  show "transactionConnector cs (transactionId c) = Some (k, c)"
    unfolding transactionConnector_def
  proof (rule find_unique)
    show "(k, c) \<in> set (connectors cs)"
      by (rule mem)
    show "case (k, c) of (k', c') \<Rightarrow> 0 < k' \<and> transactionId c' = transactionId c"
      using pos by simp
    fix y
    assume y: "y \<in> set (connectors cs)"
      and p: "case y of (k', c') \<Rightarrow> 0 < k' \<and> transactionId c' = transactionId c"
    obtain k' c' where yk: "y = (k', c')"
      by (cases y)
    from bspec[OF others y] p have k: "k' = k"
      by (simp add: yk)
    from y yk k have "(k, c') \<in> set (connectors cs)"
      by simp
    from eq_key_imp_eq_value[OF keys this mem] have "c' = c" .
    with k yk show "y = (k, c)"
      by simp
  qed
qed

text \<open>
  Claim C7.  On a station whose transactions are well formed, every call of
  \<open>stop(reason)\<close> returns, and it sends exactly one StopTransaction for each
  connector whose transaction was started before the call, in the order of the
  connector map, carrying that connector's transaction id, energy register and
  transaction idTag and the given reason; connectors without a started transaction
  cause no request; and \<open>timeToStop\<close> is true afterwards.
\<close>

theorem stop_sends_one_StopTransaction_per_started_connector:
  assumes wf: "transactionsWellFormed cs"
  shows "stop centralSystem reason (atg, cs)
           = (Inr (), atg\<lparr>timeToStop := True\<rparr>,
              cs\<lparr>requests := requests cs
                   @ map (\<lambda>(k, c). STOP_TRANSACTION (transactionId c)
                                     (Some (transactionEnergyActiveImportRegister c))
                                     (transactionIdTag c) (Some reason))
                       (filter (\<lambda>(k, c). transactionStarted c) (connectors cs))\<rparr>)"
  by (simp add: stop_def stopConnectors_all[OF wellFormed_lookups[OF wf]])

text \<open>
  The theorem on the station with transaction 41 on connector 1 and transaction 42 on
  connector 2; connectors 0 and 3 are idle.
\<close>

theorem stop_sends_one_StopTransaction_per_started_connector_witness:
  "stop acceptAll NONE (\<lparr>timeToStop = False\<rparr>, chargingStation)
     = (Inr (), \<lparr>timeToStop = True\<rparr>,
        chargingStation\<lparr>requests :=
          [STOP_TRANSACTION (Some 41) (Some 1500) (Some ''TAG-A'') (Some NONE),
           STOP_TRANSACTION (Some 42) (Some 2750) (Some ''TAG-B'') (Some NONE)]\<rparr>)"
proof -
  have wf: "transactionsWellFormed chargingStation"
    by code_simp
  have m: "requests chargingStation
             @ map (\<lambda>(k, c). STOP_TRANSACTION (transactionId c)
                               (Some (transactionEnergyActiveImportRegister c))
                               (transactionIdTag c) (Some NONE))
                 (filter (\<lambda>(k, c). transactionStarted c) (connectors chargingStation))
           = [STOP_TRANSACTION (Some 41) (Some 1500) (Some ''TAG-A'') (Some NONE),
              STOP_TRANSACTION (Some 42) (Some 2750) (Some ''TAG-B'') (Some NONE)]"
    by code_simp
  from stop_sends_one_StopTransaction_per_started_connector
         [OF wf, of acceptAll NONE "\<lparr>timeToStop = False\<rparr>"]
  show ?thesis
    by (simp add: m)
qed

end
